theory Spec2Isabelle
  imports Complex_Main "HOL-Library.AList"
begin

section \<open>Errors shared by both modules\<close>

text \<open>
  The Python exceptions the two source files can raise themselves or that the
  specification names: the explicit \<^verbatim>\<open>raise ValueError(msg)\<close>, a failed dictionary or
  column lookup, a failed list index, and a file that cannot be opened for reading.
\<close>

datatype py_error =
    ValueError string
  | KeyError
  | IndexError
  | FileNotFoundError string

section \<open>manData.py: the CSV row extractor\<close>

subsection \<open>Files, lines and slices\<close>

text \<open>
  A file system maps a path to the text of the file, as a text-mode read returns it.
  \<^verbatim>\<open>readlines\<close> cuts the text after every newline character and keeps the terminators,
  so the last line alone may lack one; \<^verbatim>\<open>writelines\<close> writes the strings one after
  another and adds nothing.
\<close>

type_synonym filesystem = "string \<rightharpoonup> string"

definition newline :: char where
  "newline = CHR 0x0A"

fun readlines :: "string \<Rightarrow> string list" where
  "readlines [] = []"
| "readlines (c # cs) =
     (if c = newline then [c] # readlines cs
      else (case readlines cs of [] \<Rightarrow> [[c]] | l # ls \<Rightarrow> (c # l) # ls))"

definition writelines :: "string \<Rightarrow> string list \<Rightarrow> string" where
  "writelines old ls = old @ concat ls"

text \<open>
  Python slicing \<^verbatim>\<open>xs[start:stop]\<close> and \<^verbatim>\<open>xs[start:stop:step]\<close> for a positive step:
  a negative bound counts from the end, every bound is then clamped into
  \<open>0 .. len(xs)\<close>, and no bound ever raises.
\<close>

definition slice_index :: "int \<Rightarrow> nat \<Rightarrow> nat" where
  "slice_index i n = (if i < 0 then nat (max (i + int n) 0) else min (nat i) n)"

definition py_slice :: "'a list \<Rightarrow> int \<Rightarrow> int \<Rightarrow> 'a list" where
  "py_slice xs start stop =
     (let a = slice_index start (length xs); b = slice_index stop (length xs)
      in take (b - a) (drop a xs))"

fun every_nth :: "nat \<Rightarrow> 'a list \<Rightarrow> 'a list" where
  "every_nth k [] = []"
| "every_nth k (x # xs) = x # every_nth k (drop (k - 1) xs)"

definition py_slice_step :: "'a list \<Rightarrow> int \<Rightarrow> int \<Rightarrow> int \<Rightarrow> 'a list" where
  "py_slice_step xs start stop step = every_nth (nat step) (py_slice xs start stop)"

subsection \<open>combine_csv_files\<close>

text \<open>
  A range descriptor is a tuple of three or four components: the source file, the first
  and the last line number, and an optional step.
\<close>

datatype csv_range =
    Range3 string int int
  | Range4 string int int int

fun csv_file_name :: "csv_range \<Rightarrow> string" where
  "csv_file_name (Range3 f s e) = f"
| "csv_file_name (Range4 f s e k) = f"

fun line_start :: "csv_range \<Rightarrow> int" where
  "line_start (Range3 f s e) = s"
| "line_start (Range4 f s e k) = s"

fun line_end :: "csv_range \<Rightarrow> int" where
  "line_end (Range3 f s e) = e"
| "line_end (Range4 f s e k) = e"

fun line_step :: "csv_range \<Rightarrow> int" where
  "line_step (Range3 f s e) = 1"
| "line_step (Range4 f s e k) = k"

text \<open>
  The lines one descriptor selects from the lines read (source lines 30 to 35): the end is
  replaced by \<open>len(lines) - 1\<close> when \<open>len(lines) < line_end\<close>, then the slice is taken with
  the step when the step exceeds one and without it otherwise.
\<close>

definition clamped_end :: "string list \<Rightarrow> int \<Rightarrow> int" where
  "clamped_end lines e = (if int (length lines) < e then int (length lines) - 1 else e)"

definition selected_lines :: "csv_range \<Rightarrow> string list \<Rightarrow> string list" where
  "selected_lines r lines =
     (let e = clamped_end lines (line_end r)
      in if line_step r > 1 then py_slice_step lines (line_start r) (e + 1) (line_step r)
         else py_slice lines (line_start r) (e + 1))"

text \<open>
  One iteration of the loop: the source is opened and read (a missing source raises),
  the destination is opened for appending (which creates it when it is absent), and the
  selected lines are written behind what the destination holds.
\<close>

definition contents :: "filesystem \<Rightarrow> string \<Rightarrow> string" where
  "contents fs p = (case fs p of None \<Rightarrow> [] | Some t \<Rightarrow> t)"

definition copy_range :: "string \<Rightarrow> csv_range \<Rightarrow> filesystem \<Rightarrow> py_error + filesystem" where
  "copy_range new_csv_file r fs =
     (case fs (csv_file_name r) of
        None \<Rightarrow> Inl (FileNotFoundError (csv_file_name r))
      | Some text \<Rightarrow>
          Inr (fs(new_csv_file \<mapsto>
                 writelines (contents fs new_csv_file) (selected_lines r (readlines text)))))"



text \<open>
  The selection as the specification words it: the lines at the positions from start to
  the end clamped to \<open>min(end, total_lines - 1)\<close>, both inclusive, that lie a multiple of
  the step behind start.
\<close>

definition spec_select :: "string list \<Rightarrow> int \<Rightarrow> int \<Rightarrow> int \<Rightarrow> string list" where
  "spec_select lines s e k =
     map (\<lambda>i. lines ! nat i)
       (filter (\<lambda>i. (i - s) mod k = 0) [s .. min e (int (length lines) - 1)])"


section \<open>dataPlot.py: configuration dictionaries\<close>

text \<open>
  The three configuration dictionaries are records of optional fields: a key that is
  absent is \<open>None\<close>. Field \<open>fc_k\<close> stands for key \<open>k\<close> of \<open>fig_cfg\<close>, \<open>pd_k\<close> for key \<open>k\<close> of
  one entry of \<open>plot_cfg\<close>, and \<open>ld_k\<close> for key \<open>k\<close> of one entry of \<open>line_cfg\<close>. Numbers are
  reals (a decimal literal of the source is the number it denotes), a data column is a
  list of reals, and keyword dictionaries that are only passed through are association
  lists of opaque values.
\<close>

type_synonym kwargs = "(string \<times> string) list"
type_synonym series = "real list"
type_synonym table = "string \<rightharpoonup> series"
type_synonym storage = "string \<rightharpoonup> table"

record fig_cfg =
  fc_left :: "real option"
  fc_right :: "real option"
  fc_bottom :: "real option"
  fc_top :: "real option"
  fc_wspace :: "real option"
  fc_hspace :: "real option"
  fc_num_rows :: "nat option"
  fc_num_cols :: "nat option"
  fc_width :: "real option"
  fc_height :: "real option"
  fc_fontsize :: "real option"
  fc_fig_title :: "string option"
  fc_title_y :: "real option"
  fc_subtitle_kwargs :: "kwargs option"
  fc_legend_id :: "int list option"
  fc_legend_kwargs :: "kwargs option"
  fc_file_path :: "string option"
  fc_filename :: "string option"
  fc_fig_format :: "string option"

record plot_data =
  pd_xlabel :: "string option"
  pd_ylabel :: "string option"
  pd_xlim :: "(real \<times> real) option"
  pd_ylim :: "(real \<times> real) option"
  pd_xscale :: "string option"
  pd_yscale :: "string option"
  pd_xticks :: "series option"
  pd_yticks :: "series option"
  pd_xticks_kwargs :: "kwargs option"
  pd_yticks_kwargs :: "kwargs option"
  pd_xticks_percentage :: "bool option"
  pd_yticks_percentage :: "bool option"
  pd_title :: "string option"
  pd_title_y :: "real option"
  pd_show_grid :: "string option"
  pd_grid_axis :: "string option"
  pd_grid_properties :: "kwargs option"
  pd_line :: "int list option"
  pd_legend :: "int list option"
  pd_legends_position :: "string option"
  pd_lgdncol :: "int option"
  pd_bbox_to_anchor :: "real list option"
  pd_xspan :: "series option"
  pd_yspan :: "series option"
  pd_fill_properties :: "kwargs option"

record line_data =
  ld_xdata :: "(string \<times> string) option"
  ld_xdata_array :: "series option"
  ld_ydata :: "(string \<times> string) option"
  ld_ydata_array :: "series option"
  ld_rightYAxis :: "string option"
  ld_ylim_right :: "(real \<times> real) option"
  ld_rightYAxis_percentage :: "bool option"
  ld_color :: "string option"
  ld_linestyle :: "string option"
  ld_marker :: "string option"
  ld_markevery :: "int option"
  ld_label :: "string option"
  ld_line_kwargs :: "kwargs option"

text \<open>
  \<^verbatim>\<open>d.get(k, default)\<close>, and the truth value Python gives an optional string, an optional
  list and an optional flag in a condition: an absent key, an empty string and an empty
  list are all false.
\<close>

definition dict_get :: "'a option \<Rightarrow> 'a \<Rightarrow> 'a" where
  "dict_get v d = (case v of None \<Rightarrow> d | Some x \<Rightarrow> x)"

definition truthy :: "'a list option \<Rightarrow> bool" where
  "truthy v = (case v of None \<Rightarrow> False | Some x \<Rightarrow> x \<noteq> [])"

definition flag :: "bool option \<Rightarrow> bool" where
  "flag v = dict_get v False"

section \<open>The drawing surface\<close>

text \<open>
  The plotting library is modelled by the state its calls leave behind. A figure holds
  its axes in the order of \<^verbatim>\<open>fig.axes\<close>: the grid of \<^verbatim>\<open>plt.subplots\<close> in row-major order
  first, then every axes that \<^verbatim>\<open>twinx\<close> created, in creation order. An axes object is
  named by its position in that list, so two positions are two objects. The argument
  checks of the calls that build the figure are modelled (\<open>builder_error\<close> below); every
  other library call is taken to accept its arguments. The view limits of the y axis
  after a call that adds an artist are the library's choice: they are given by a function
  of the axes, a parameter of the model.
\<close>

datatype formatter = ScalarFormatter | PercentFormatter

record line2D =
  l_uid :: nat
  l_xdata :: series
  l_ydata :: series
  l_color :: string
  l_linestyle :: string
  l_marker :: "string option"
  l_markevery :: int
  l_label :: "string option"
  l_kwargs :: kwargs

record fill =
  fl_x :: series
  fl_y1 :: real
  fl_y2 :: real
  fl_where :: "bool list"
  fl_kwargs :: kwargs

datatype artist = Line line2D | Fill fill

record legend =
  lg_handles :: "artist list"
  lg_loc :: "string option"
  lg_ncol :: "int option"
  lg_bbox_to_anchor :: "real list option"

record axes =
  a_xlabel :: "string option"
  a_ylabel :: "string option"
  a_xlim :: "(real \<times> real) option"
  a_ylim :: "real \<times> real"
  a_xscale :: string
  a_yscale :: string
  a_xticks :: "(series \<times> kwargs) option"
  a_yticks :: "(series \<times> kwargs) option"
  a_xformatter :: formatter
  a_yformatter :: formatter
  a_title :: "(string \<times> real) option"
  a_grid :: "(string \<times> string \<times> kwargs) option"
  a_children :: "artist list"
  a_legend :: "legend option"
  a_twin_of :: "nat option"

record margins =
  m_left :: real
  m_bottom :: real
  m_right :: real
  m_top :: real
  m_wspace :: real
  m_hspace :: real

record figure =
  f_font_size :: real
  f_nrows :: nat
  f_ncols :: nat
  f_figsize :: "real \<times> real"
  f_suptitle :: "string \<times> real \<times> kwargs"
  f_adjust :: margins
  f_axes :: "axes list"
  f_legend :: "(artist list \<times> string list \<times> kwargs) option"
  f_saved :: "string list"
  f_shown :: bool
  f_next_uid :: nat

type_synonym backend = "axes \<Rightarrow> real \<times> real"

definition new_axes :: axes where
  "new_axes =
     \<lparr>a_xlabel = None, a_ylabel = None, a_xlim = None, a_ylim = (0, 1),
      a_xscale = ''linear'', a_yscale = ''linear'', a_xticks = None, a_yticks = None,
      a_xformatter = ScalarFormatter, a_yformatter = ScalarFormatter, a_title = None,
      a_grid = None, a_children = [], a_legend = None, a_twin_of = None\<rparr>"

definition upd_axes :: "nat \<Rightarrow> (axes \<Rightarrow> axes) \<Rightarrow> figure \<Rightarrow> figure" where
  "upd_axes i f fig = fig\<lparr>f_axes := (f_axes fig)[i := f (f_axes fig ! i)]\<rparr>"

text \<open>
  \<^verbatim>\<open>axs.flatten()[k]\<close>: the grid has \<open>rows * cols\<close> entries, a negative index counts from
  the end, and an index outside the grid raises \<^verbatim>\<open>IndexError\<close>.
\<close>

definition flat_index :: "figure \<Rightarrow> int \<Rightarrow> nat option" where
  "flat_index fig k =
     (let n = int (f_nrows fig * f_ncols fig)
      in if 0 \<le> k \<and> k < n then Some (nat k)
         else if - n \<le> k \<and> k < 0 then Some (nat (k + n))
         else None)"

text \<open>
  The artists a legend built without explicit handles shows
  (\<^verbatim>\<open>get_legend_handles_labels\<close>): the artists of that one axes whose label is set, not
  empty and does not start with an underscore, with their labels.
\<close>

fun artist_label :: "artist \<Rightarrow> string option" where
  "artist_label (Line l) = l_label l"
| "artist_label (Fill f) = map_of (fl_kwargs f) ''label''"

definition shown_in_legend :: "artist \<Rightarrow> bool" where
  "shown_in_legend a =
     (case artist_label a of None \<Rightarrow> False
      | Some s \<Rightarrow> (case s of [] \<Rightarrow> False | c # cs \<Rightarrow> c \<noteq> CHR ''_''))"

definition get_legend_handles_labels :: "axes \<Rightarrow> artist list \<times> string list" where
  "get_legend_handles_labels ax =
     (let hs = filter shown_in_legend (a_children ax)
      in (hs, map (\<lambda>a. dict_get (artist_label a) []) hs))"

section \<open>dataPlot.py: subplots_ajdust\<close>

definition subplots_ajdust :: "fig_cfg \<Rightarrow> figure" where
  "subplots_ajdust cfg =
     (let left = dict_get (fc_left cfg) 0.125;
          right = dict_get (fc_right cfg) 0.9;
          bottom = dict_get (fc_bottom cfg) 0.05;
          top = dict_get (fc_top cfg) 0.9;
          wspace = dict_get (fc_wspace cfg) 0.2;
          hspace = dict_get (fc_hspace cfg) 0.2;
          rows = dict_get (fc_num_rows cfg) 1;
          cols = dict_get (fc_num_cols cfg) 1;
          width = dict_get (fc_width cfg) 6;
          height = dict_get (fc_height cfg) 9
      in \<lparr>f_font_size = dict_get (fc_fontsize cfg) 10,
          f_nrows = rows, f_ncols = cols, f_figsize = (width, height),
          f_suptitle = (dict_get (fc_fig_title cfg) [], dict_get (fc_title_y cfg) 0.98,
                        dict_get (fc_subtitle_kwargs cfg) []),
          f_adjust = \<lparr>m_left = left, m_bottom = bottom, m_right = right, m_top = top,
                      m_wspace = wspace, m_hspace = hspace\<rparr>,
          f_axes = replicate (rows * cols) new_axes,
          f_legend = None, f_saved = [], f_shown = False, f_next_uid = 0\<rparr>)"

text \<open>
  \<open>subplots_ajdust cfg\<close> is the figure the builder returns when the library takes the
  values it is handed. The library checks some of them and raises \<^verbatim>\<open>ValueError\<close>, in the
  order of the calls at source lines 62 to 64: \<^verbatim>\<open>plt.subplots\<close> refuses a negative width or
  height, then a grid without rows or without columns; \<^verbatim>\<open>fig.subplots_adjust\<close> refuses
  \<open>left >= right\<close>, then \<open>bottom >= top\<close>. \<open>builder_error\<close> is that error, if any, and
  \<open>call_subplots_ajdust\<close> is the call as the entry point makes it at source line 170.
\<close>

definition builder_error :: "fig_cfg \<Rightarrow> py_error option" where
  "builder_error cfg =
     (let fig = subplots_ajdust cfg
      in if fst (f_figsize fig) < 0 then Some (ValueError ''figure size must be positive finite'')
         else if snd (f_figsize fig) < 0 then Some (ValueError ''figure size must be positive finite'')
         else if f_nrows fig = 0 then Some (ValueError ''Number of rows must be a positive integer'')
         else if f_ncols fig = 0 then Some (ValueError ''Number of columns must be a positive integer'')
         else if m_right (f_adjust fig) \<le> m_left (f_adjust fig)
           then Some (ValueError ''left cannot be >= right'')
         else if m_top (f_adjust fig) \<le> m_bottom (f_adjust fig)
           then Some (ValueError ''bottom cannot be >= top'')
         else None)"

definition call_subplots_ajdust :: "fig_cfg \<Rightarrow> py_error + figure" where
  "call_subplots_ajdust cfg =
     (case builder_error cfg of Some e \<Rightarrow> Inl e | None \<Rightarrow> Inr (subplots_ajdust cfg))"

text \<open>
  A figure configuration the builder is sure to accept: a grid of at least one row and one
  column, a positive width and height, \<open>left < right\<close>, \<open>bottom < top\<close>, and no further
  keywords for the title (which keywords the library takes for it is not modelled).
\<close>

definition builder_accepts :: "fig_cfg \<Rightarrow> bool" where
  "builder_accepts cfg =
     (0 < f_nrows (subplots_ajdust cfg) \<and> 0 < f_ncols (subplots_ajdust cfg) \<and>
      0 < fst (f_figsize (subplots_ajdust cfg)) \<and> 0 < snd (f_figsize (subplots_ajdust cfg)) \<and>
      m_left (f_adjust (subplots_ajdust cfg)) < m_right (f_adjust (subplots_ajdust cfg)) \<and>
      m_bottom (f_adjust (subplots_ajdust cfg)) < m_top (f_adjust (subplots_ajdust cfg)) \<and>
      dict_get (fc_subtitle_kwargs cfg) [] = [])"

section \<open>dataPlot.py: the data resolver of plot_line2D\<close>

text \<open>
  The two bookkeeping dictionaries are keyed by the running file number. A Python
  dictionary takes keys of any type, an integer key never equals a string, and
  \<^verbatim>\<open>x not in d\<close> looks among the keys of \<open>d\<close>. The list \<open>reads\<close> is the read-count probe: the
  paths handed to \<^verbatim>\<open>pd.read_csv\<close>, in order.
\<close>

datatype pykey = KInt int | KStr string

record resolver =
  data_files :: "(pykey \<times> table) list"
  data_file_names :: "(pykey \<times> string) list"
  nfiles :: int
  reads :: "string list"

definition init_resolver :: resolver where
  "init_resolver = \<lparr>data_files = [], data_file_names = [], nfiles = 0, reads = []\<rparr>"

definition resolve_xdata :: "storage \<Rightarrow> resolver \<Rightarrow> line_data \<Rightarrow> py_error + resolver \<times> line_data" where
  "resolve_xdata sto st ld =
     (case ld_xdata ld of
        Some (file, col) \<Rightarrow>
          if KStr file \<notin> set (map fst (data_file_names st)) then
            (case sto file of
               None \<Rightarrow> Inl (FileNotFoundError file)
             | Some tbl \<Rightarrow>
                 let n = nfiles st + 1;
                     st' = st\<lparr>nfiles := n,
                              data_files := AList.update (KInt n) tbl (data_files st),
                              data_file_names := AList.update (KInt n) file (data_file_names st),
                              reads := reads st @ [file]\<rparr>
                 in (case tbl col of
                       None \<Rightarrow> Inl KeyError
                     | Some arr \<Rightarrow> Inr (st', ld\<lparr>ld_xdata_array := Some arr\<rparr>)))
          else
            (case find (\<lambda>kv. snd kv = file) (data_file_names st) of
               None \<Rightarrow> Inr (st, ld)
             | Some kv \<Rightarrow>
                 (case map_of (data_files st) (fst kv) of
                    None \<Rightarrow> Inl KeyError
                  | Some tbl \<Rightarrow>
                      (case tbl col of
                         None \<Rightarrow> Inl KeyError
                       | Some arr \<Rightarrow> Inr (st, ld\<lparr>ld_xdata_array := Some arr\<rparr>))))
      | None \<Rightarrow>
          (case ld_xdata_array ld of
             Some arr \<Rightarrow> Inr (st, ld)
           | None \<Rightarrow> Inl (ValueError ''xdata or xdata_array is missing in line_cfg'')))"

definition resolve_ydata :: "storage \<Rightarrow> resolver \<Rightarrow> line_data \<Rightarrow> py_error + resolver \<times> line_data" where
  "resolve_ydata sto st ld =
     (case ld_ydata ld of
        Some (file, col) \<Rightarrow>
          if KStr file \<notin> set (map fst (data_file_names st)) then
            (let n = nfiles st + 1;
                 names = AList.update (KInt n) file (data_file_names st)
             in case sto file of
                  None \<Rightarrow> Inl (FileNotFoundError file)
                | Some tbl \<Rightarrow>
                    let st' = st\<lparr>nfiles := n,
                                 data_file_names := names,
                                 data_files := AList.update (KInt n) tbl (data_files st),
                                 reads := reads st @ [file]\<rparr>
                    in (case tbl col of
                          None \<Rightarrow> Inl KeyError
                        | Some arr \<Rightarrow> Inr (st', ld\<lparr>ld_ydata_array := Some arr\<rparr>)))
          else
            (case find (\<lambda>kv. snd kv = file) (data_file_names st) of
               None \<Rightarrow> Inr (st, ld)
             | Some kv \<Rightarrow>
                 (case map_of (data_files st) (fst kv) of
                    None \<Rightarrow> Inl KeyError
                  | Some tbl \<Rightarrow>
                      (case tbl col of
                         None \<Rightarrow> Inl KeyError
                       | Some arr \<Rightarrow> Inr (st, ld\<lparr>ld_ydata_array := Some arr\<rparr>))))
      | None \<Rightarrow>
          (case ld_ydata_array ld of
             Some arr \<Rightarrow> Inr (st, ld)
           | None \<Rightarrow> Inl (ValueError ''ydata or ydata_array is missing in line_cfg'')))"

text \<open>
  The loop over \<^verbatim>\<open>line_cfg.items()\<close>: the dictionary is the list of its entries in
  insertion order, and each entry is replaced by its resolved version.
\<close>

type_synonym line_cfg = "(int \<times> line_data) list"

definition resolve_line :: "storage \<Rightarrow> resolver \<Rightarrow> line_data \<Rightarrow> py_error + resolver \<times> line_data" where
  "resolve_line sto st ld =
     (case resolve_xdata sto st ld of
        Inl e \<Rightarrow> Inl e
      | Inr r \<Rightarrow> resolve_ydata sto (fst r) (snd r))"

fun resolve_lines :: "storage \<Rightarrow> resolver \<Rightarrow> line_cfg \<Rightarrow> py_error + resolver \<times> line_cfg" where
  "resolve_lines sto st [] = Inr (st, [])"
| "resolve_lines sto st ((line_id, ld) # rest) =
     (case resolve_line sto st ld of
        Inl e \<Rightarrow> Inl e
      | Inr r \<Rightarrow>
          (case resolve_lines sto (fst r) rest of
             Inl e \<Rightarrow> Inl e
           | Inr r' \<Rightarrow> Inr (fst r', (line_id, snd r) # snd r')))"

section \<open>dataPlot.py: the renderer of plot_line2D\<close>

text \<open>
  A failure carries the figure as it stands when the exception is raised, so that what
  was drawn before the failure can be stated.
\<close>

type_synonym 'a result = "py_error \<times> figure + 'a"

text \<open>
  Source lines 215 to 236: labels, limits, scales, ticks, tick format, title and grid of
  the primary axes, each applied as the source's condition says.
\<close>

definition configure_axes :: "plot_data \<Rightarrow> axes \<Rightarrow> axes" where
  "configure_axes pd ax0 =
     (let ax1 = (case pd_xlabel pd of Some s \<Rightarrow> ax0\<lparr>a_xlabel := Some s\<rparr> | None \<Rightarrow> ax0);
          ax2 = (case pd_ylabel pd of Some s \<Rightarrow> ax1\<lparr>a_ylabel := Some s\<rparr> | None \<Rightarrow> ax1);
          ax3 = (case pd_xlim pd of Some l \<Rightarrow> ax2\<lparr>a_xlim := Some l\<rparr> | None \<Rightarrow> ax2);
          ax4 = (case pd_ylim pd of Some l \<Rightarrow> ax3\<lparr>a_ylim := l\<rparr> | None \<Rightarrow> ax3);
          ax5 = ax4\<lparr>a_xscale := dict_get (pd_xscale pd) ''linear''\<rparr>;
          ax6 = ax5\<lparr>a_yscale := dict_get (pd_yscale pd) ''linear''\<rparr>;
          ax7 = (if truthy (pd_xticks pd)
                 then ax6\<lparr>a_xticks := Some (dict_get (pd_xticks pd) [],
                                           dict_get (pd_xticks_kwargs pd) [])\<rparr>
                 else ax6);
          ax8 = (if truthy (pd_yticks pd)
                 then ax7\<lparr>a_yticks := Some (dict_get (pd_yticks pd) [],
                                           dict_get (pd_yticks_kwargs pd) [])\<rparr>
                 else ax7);
          ax9 = (if flag (pd_xticks_percentage pd)
                 then ax8\<lparr>a_xformatter := PercentFormatter\<rparr> else ax8);
          ax10 = (if flag (pd_yticks_percentage pd)
                  then ax9\<lparr>a_yformatter := PercentFormatter\<rparr> else ax9);
          ax11 = (case pd_title pd of
                    Some s \<Rightarrow> ax10\<lparr>a_title := Some (s, dict_get (pd_title_y pd) 1.0)\<rparr>
                  | None \<Rightarrow> ax10)
      in if truthy (pd_show_grid pd)
         then ax11\<lparr>a_grid := Some (dict_get (pd_show_grid pd) [],
                                   dict_get (pd_grid_axis pd) ''both'',
                                   dict_get (pd_grid_properties pd) [])\<rparr>
         else ax11)"

text \<open>
  \<^verbatim>\<open>ax.plot\<close> on the axes at position \<open>i\<close>: a new line object is added to the axes, the
  library rescales the view, and the line is returned as the handle.
  \<^verbatim>\<open>ax.twinx()\<close> adds a new axes to the figure and returns it.
  \<^verbatim>\<open>ax.fill_between\<close> adds the filled region and lets the library rescale as well.
\<close>

definition add_artist :: "backend \<Rightarrow> artist \<Rightarrow> axes \<Rightarrow> axes" where
  "add_artist bk a ax =
     (let ax' = ax\<lparr>a_children := a_children ax @ [a]\<rparr> in ax'\<lparr>a_ylim := bk ax'\<rparr>)"

definition plot :: "backend \<Rightarrow> nat \<Rightarrow> series \<Rightarrow> series \<Rightarrow> line_data \<Rightarrow> figure \<Rightarrow> figure \<times> line2D" where
  "plot bk i xdata ydata ld fig =
     (let h = \<lparr>l_uid = f_next_uid fig, l_xdata = xdata, l_ydata = ydata,
                l_color = dict_get (ld_color ld) ''b'',
                l_linestyle = dict_get (ld_linestyle ld) ''-'',
                l_marker = ld_marker ld,
                l_markevery = dict_get (ld_markevery ld) 1,
                l_label = ld_label ld,
                l_kwargs = dict_get (ld_line_kwargs ld) []\<rparr>
      in ((upd_axes i (add_artist bk (Line h)) fig)\<lparr>f_next_uid := Suc (f_next_uid fig)\<rparr>, h))"

definition twinx :: "nat \<Rightarrow> figure \<Rightarrow> figure \<times> nat" where
  "twinx i fig =
     (fig\<lparr>f_axes := f_axes fig @ [new_axes\<lparr>a_twin_of := Some i\<rparr>]\<rparr>, length (f_axes fig))"

definition fill_between ::
  "backend \<Rightarrow> nat \<Rightarrow> series \<Rightarrow> real \<Rightarrow> real \<Rightarrow> bool list \<Rightarrow> kwargs \<Rightarrow> figure \<Rightarrow> figure" where
  "fill_between bk i x y1 y2 wh kw fig =
     upd_axes i (add_artist bk
       (Fill \<lparr>fl_x = x, fl_y1 = y1, fl_y2 = y2, fl_where = wh, fl_kwargs = kw\<rparr>)) fig"

text \<open>
  Source lines 239 to 254, the body of the loop over the line list of one subplot. The
  handles dictionary maps a line identifier to the line drawn for it last.
\<close>

type_synonym handles = "int \<rightharpoonup> line2D"

definition draw_line ::
  "backend \<Rightarrow> line_cfg \<Rightarrow> nat \<Rightarrow> int \<Rightarrow> figure \<times> handles \<Rightarrow> (figure \<times> handles) result" where
  "draw_line bk lc ax line_id s =
     (let fig = fst s; hs = snd s
      in case map_of lc line_id of
           None \<Rightarrow> Inl (KeyError, fig)
         | Some ld \<Rightarrow>
             (case ld_xdata_array ld of
                None \<Rightarrow> Inl (KeyError, fig)
              | Some xdata \<Rightarrow>
                  (case ld_ydata_array ld of
                     None \<Rightarrow> Inl (KeyError, fig)
                   | Some ydata \<Rightarrow>
                       if truthy (ld_rightYAxis ld) then
                         (let tw = twinx ax fig;
                              ax2 = snd tw;
                              fig1 = upd_axes ax2 (\<lambda>a. a\<lparr>a_ylabel := ld_rightYAxis ld\<rparr>) (fst tw);
                              fig2 = (case ld_ylim_right ld of
                                        Some l \<Rightarrow> upd_axes ax2 (\<lambda>a. a\<lparr>a_ylim := l\<rparr>) fig1
                                      | None \<Rightarrow> fig1);
                              fig3 = (if flag (ld_rightYAxis_percentage ld)
                                      then upd_axes ax2 (\<lambda>a. a\<lparr>a_yformatter := PercentFormatter\<rparr>) fig2
                                      else fig2);
                              p = plot bk ax2 xdata ydata ld fig3
                          in Inr (fst p, hs(line_id \<mapsto> snd p)))
                       else
                         (let p = plot bk ax xdata ydata ld fig
                          in Inr (fst p, hs(line_id \<mapsto> snd p))))))"

fun draw_lines ::
  "backend \<Rightarrow> line_cfg \<Rightarrow> nat \<Rightarrow> int list \<Rightarrow> figure \<times> handles \<Rightarrow> (figure \<times> handles) result" where
  "draw_lines bk lc ax [] s = Inr s"
| "draw_lines bk lc ax (line_id # ids) s =
     (case draw_line bk lc ax line_id s of
        Inl e \<Rightarrow> Inl e
      | Inr s' \<Rightarrow> draw_lines bk lc ax ids s')"

text \<open>
  Source lines 255 to 258: the y limits of the primary axes are read, the span is shaded
  when both \<open>xspan\<close> and \<open>yspan\<close> are configured, and the limits read are set again.
\<close>

definition shade_span :: "backend \<Rightarrow> plot_data \<Rightarrow> nat \<Rightarrow> figure \<Rightarrow> figure" where
  "shade_span bk pd ax fig =
     (let ylim = a_ylim (f_axes fig ! ax);
          ymin = fst ylim;
          ymax = snd ylim;
          fig1 = (case pd_xspan pd of
                    None \<Rightarrow> fig
                  | Some xspan \<Rightarrow>
                      (case pd_yspan pd of
                         None \<Rightarrow> fig
                       | Some yspan \<Rightarrow>
                           fill_between bk ax xspan ymin ymax (map (\<lambda>y. y > 0) yspan)
                             (dict_get (pd_fill_properties pd) []) fig))
      in upd_axes ax (\<lambda>a. a\<lparr>a_ylim := (ymin, ymax)\<rparr>) fig1)"

text \<open>
  Source lines 260 to 264: the legend of the subplot. The first call passes the handles
  of the listed identifiers (a listed identifier that was not drawn raises
  \<^verbatim>\<open>KeyError\<close>); when \<open>bbox_to_anchor\<close> is configured, a second call builds the legend
  anew with that one argument, so the library picks the handles itself. An axes has one
  legend: the one of the last call.
\<close>

fun lookup_all :: "handles \<Rightarrow> int list \<Rightarrow> line2D list option" where
  "lookup_all hs [] = Some []"
| "lookup_all hs (i # is) =
     (case hs i of
        None \<Rightarrow> None
      | Some h \<Rightarrow> (case lookup_all hs is of None \<Rightarrow> None | Some rest \<Rightarrow> Some (h # rest)))"

definition subplot_legend :: "plot_data \<Rightarrow> nat \<Rightarrow> handles \<Rightarrow> figure \<Rightarrow> figure result" where
  "subplot_legend pd ax hs fig =
     (case pd_legend pd of
        None \<Rightarrow> Inr fig
      | Some ids \<Rightarrow>
          (case lookup_all hs ids of
             None \<Rightarrow> Inl (KeyError, fig)
           | Some handles_list \<Rightarrow>
               (let fig1 = upd_axes ax (\<lambda>a. a\<lparr>a_legend := Some
                             \<lparr>lg_handles = map Line handles_list,
                              lg_loc = Some (dict_get (pd_legends_position pd) ''best''),
                              lg_ncol = Some (dict_get (pd_lgdncol pd) 1),
                              lg_bbox_to_anchor = None\<rparr>\<rparr>) fig
                in case pd_bbox_to_anchor pd of
                     None \<Rightarrow> Inr fig1
                   | Some bb \<Rightarrow>
                       Inr (upd_axes ax (\<lambda>a. a\<lparr>a_legend := Some
                              \<lparr>lg_handles = fst (get_legend_handles_labels a),
                               lg_loc = None, lg_ncol = None,
                               lg_bbox_to_anchor = Some bb\<rparr>\<rparr>) fig1))))"

text \<open>Source lines 213 to 264: one subplot, and the loop over \<^verbatim>\<open>plot_cfg.items()\<close>.\<close>

type_synonym plot_cfg = "(int \<times> plot_data) list"

definition render_subplot :: "backend \<Rightarrow> line_cfg \<Rightarrow> int \<Rightarrow> plot_data \<Rightarrow> figure \<Rightarrow> figure result" where
  "render_subplot bk lc plot_id pd fig =
     (case flat_index fig (plot_id - 1) of
        None \<Rightarrow> Inl (IndexError, fig)
      | Some ax \<Rightarrow>
          (case draw_lines bk lc ax (dict_get (pd_line pd) [])
                  (upd_axes ax (configure_axes pd) fig, Map.empty) of
             Inl e \<Rightarrow> Inl e
           | Inr s \<Rightarrow> subplot_legend pd ax (snd s) (shade_span bk pd ax (fst s))))"

fun render_subplots :: "backend \<Rightarrow> line_cfg \<Rightarrow> plot_cfg \<Rightarrow> figure \<Rightarrow> figure result" where
  "render_subplots bk lc [] fig = Inr fig"
| "render_subplots bk lc ((plot_id, pd) # rest) fig =
     (case render_subplot bk lc plot_id pd fig of
        Inl e \<Rightarrow> Inl e
      | Inr fig' \<Rightarrow> render_subplots bk lc rest fig')"

text \<open>
  Source lines 265 to 270: the legend of the whole figure collects, in the order of
  \<open>legend_id\<close>, the handles and labels the library finds on each listed subplot.
\<close>

fun flat_indices :: "figure \<Rightarrow> int list \<Rightarrow> nat list option" where
  "flat_indices fig [] = Some []"
| "flat_indices fig (legend_id # ids) =
     (case flat_index fig (legend_id - 1) of
        None \<Rightarrow> None
      | Some i \<Rightarrow> (case flat_indices fig ids of None \<Rightarrow> None | Some rest \<Rightarrow> Some (i # rest)))"

definition figure_legend :: "fig_cfg \<Rightarrow> figure \<Rightarrow> figure result" where
  "figure_legend cfg fig =
     (if truthy (fc_legend_id cfg) then
        (case flat_indices fig (dict_get (fc_legend_id cfg) []) of
           None \<Rightarrow> Inl (IndexError, fig)
         | Some axs \<Rightarrow>
             (let lines_labels = map (\<lambda>i. get_legend_handles_labels (f_axes fig ! i)) axs
              in Inr (fig\<lparr>f_legend := Some (concat (map fst lines_labels),
                                            concat (map snd lines_labels),
                                            dict_get (fc_legend_kwargs cfg) [])\<rparr>)))
      else Inr fig)"

text \<open>Source lines 272 to 277: the output writer.\<close>

definition savefig :: "string \<Rightarrow> figure \<Rightarrow> figure" where
  "savefig path fig = fig\<lparr>f_saved := f_saved fig @ [path]\<rparr>"

definition save_figure :: "fig_cfg \<Rightarrow> figure \<Rightarrow> figure" where
  "save_figure cfg fig =
     (let full_path = dict_get (fc_file_path cfg) ''./'' @ dict_get (fc_filename cfg) ''new_fig''
                        @ ''.'' @ dict_get (fc_fig_format cfg) ''png'';
          fig1 = savefig full_path fig;
          fig2 = (if dict_get (fc_fig_format cfg) ''png'' \<noteq> ''png''
                  then savefig (dict_get (fc_file_path cfg) ''./''
                                  @ dict_get (fc_filename cfg) ''new_fig'' @ ''.png'') fig1
                  else fig1)
      in fig2\<lparr>f_shown := True\<rparr>)"

text \<open>
  The entry point. Its effects are the figure and the reads of the storage; a call that
  completes returns both. The builder runs first (source line 170): when it raises, the
  call ends there, before the resolver, and the figure carried is the one that was asked
  for, with nothing drawn on it.
\<close>

definition plot_line2D ::
  "backend \<Rightarrow> storage \<Rightarrow> fig_cfg \<Rightarrow> plot_cfg \<Rightarrow> line_cfg \<Rightarrow> (figure \<times> string list) result" where
  "plot_line2D bk sto cfg pc lc =
     (case call_subplots_ajdust cfg of
        Inl e \<Rightarrow> Inl (e, subplots_ajdust cfg)
      | Inr fig \<Rightarrow>
          (case resolve_lines sto init_resolver lc of
             Inl e \<Rightarrow> Inl (e, fig)
           | Inr r \<Rightarrow>
               (case render_subplots bk (snd r) pc fig of
                  Inl e \<Rightarrow> Inl e
                | Inr fig1 \<Rightarrow>
                    (case figure_legend cfg fig1 of
                       Inl e \<Rightarrow> Inl e
                     | Inr fig2 \<Rightarrow> Inr (save_figure cfg fig2, reads (fst r))))))"

text \<open>Observations on a finished call, used to state the claims.\<close>

definition final_figure :: "(figure \<times> string list) result \<Rightarrow> figure" where
  "final_figure r = (case r of Inl e \<Rightarrow> snd e | Inr v \<Rightarrow> fst v)"

definition drawn_artists :: "figure \<Rightarrow> artist list" where
  "drawn_artists fig = concat (map a_children (f_axes fig))"

definition legend_labels :: "axes \<Rightarrow> string option list" where
  "legend_labels ax =
     (case a_legend ax of None \<Rightarrow> [] | Some lg \<Rightarrow> map artist_label (lg_handles lg))"

definition storage_reads :: "(figure \<times> string list) result \<Rightarrow> string list" where
  "storage_reads r = (case r of Inl e \<Rightarrow> [] | Inr v \<Rightarrow> snd v)"

text \<open>
  A line is drawn on a secondary axis when its \<open>rightYAxis\<close> value is true for Python: set
  and not empty. \<open>twin_of_line lc ax t i\<close> says that the axes \<open>t\<close> is what the renderer
  makes for line \<open>i\<close> in that case: a twin of the primary axes \<open>ax\<close> that carries the line's
  secondary label and holds one artist, the line drawn from the arrays and the label of
  line \<open>i\<close>.
\<close>

definition on_right_axis :: "line_cfg \<Rightarrow> int \<Rightarrow> bool" where
  "on_right_axis lc line_id =
     (case map_of lc line_id of None \<Rightarrow> False | Some ld \<Rightarrow> truthy (ld_rightYAxis ld))"

definition drawn_from :: "line_data \<Rightarrow> artist \<Rightarrow> bool" where
  "drawn_from ld a =
     (case a of
        Line h \<Rightarrow> Some (l_xdata h) = ld_xdata_array ld \<and> Some (l_ydata h) = ld_ydata_array ld
                  \<and> l_label h = ld_label ld
      | Fill f \<Rightarrow> False)"

definition twin_of_line :: "line_cfg \<Rightarrow> nat \<Rightarrow> axes \<Rightarrow> int \<Rightarrow> bool" where
  "twin_of_line lc ax t line_id =
     (case map_of lc line_id of
        None \<Rightarrow> False
      | Some ld \<Rightarrow>
          a_twin_of t = Some ax \<and> a_ylabel t = ld_rightYAxis ld \<and>
          (case a_children t of
             [] \<Rightarrow> False
           | a # rest \<Rightarrow> rest = [] \<and> drawn_from ld a))"

text \<open>
  A line entry lacks a data source when neither the reference nor the array of one of
  its two axes is there; a reference loads when its file is in the storage and the
  table read from it has the column.
\<close>

definition missing_source :: "line_data \<Rightarrow> bool" where
  "missing_source ld =
     ((ld_xdata ld = None \<and> ld_xdata_array ld = None) \<or>
      (ld_ydata ld = None \<and> ld_ydata_array ld = None))"

definition loads :: "storage \<Rightarrow> (string \<times> string) option \<Rightarrow> bool" where
  "loads sto r =
     (case r of
        None \<Rightarrow> True
      | Some fc \<Rightarrow> (case sto (fst fc) of None \<Rightarrow> False | Some tbl \<Rightarrow> tbl (snd fc) \<noteq> None))"

text \<open>The files one line entry refers to: that of its x reference, then that of its y reference.\<close>

definition referenced_files :: "line_data \<Rightarrow> string list" where
  "referenced_files ld =
     (case ld_xdata ld of None \<Rightarrow> [] | Some fc \<Rightarrow> [fst fc]) @
     (case ld_ydata ld of None \<Rightarrow> [] | Some fc \<Rightarrow> [fst fc])"

text \<open>The empty dictionaries, to build configurations from.\<close>

definition empty_fig_cfg :: fig_cfg where
  "empty_fig_cfg =
     \<lparr>fc_left = None, fc_right = None, fc_bottom = None, fc_top = None, fc_wspace = None,
      fc_hspace = None, fc_num_rows = None, fc_num_cols = None, fc_width = None,
      fc_height = None, fc_fontsize = None, fc_fig_title = None, fc_title_y = None,
      fc_subtitle_kwargs = None, fc_legend_id = None, fc_legend_kwargs = None,
      fc_file_path = None, fc_filename = None, fc_fig_format = None\<rparr>"

definition empty_plot_data :: plot_data where
  "empty_plot_data =
     \<lparr>pd_xlabel = None, pd_ylabel = None, pd_xlim = None, pd_ylim = None, pd_xscale = None,
      pd_yscale = None, pd_xticks = None, pd_yticks = None, pd_xticks_kwargs = None,
      pd_yticks_kwargs = None, pd_xticks_percentage = None, pd_yticks_percentage = None,
      pd_title = None, pd_title_y = None, pd_show_grid = None, pd_grid_axis = None,
      pd_grid_properties = None, pd_line = None, pd_legend = None,
      pd_legends_position = None, pd_lgdncol = None, pd_bbox_to_anchor = None,
      pd_xspan = None, pd_yspan = None, pd_fill_properties = None\<rparr>"

definition empty_line_data :: line_data where
  "empty_line_data =
     \<lparr>ld_xdata = None, ld_xdata_array = None, ld_ydata = None, ld_ydata_array = None,
      ld_rightYAxis = None, ld_ylim_right = None, ld_rightYAxis_percentage = None,
      ld_color = None, ld_linestyle = None, ld_marker = None, ld_markevery = None,
      ld_label = None, ld_line_kwargs = None\<rparr>"

text \<open>
  A storage with one file of two columns, and a library that rescales the view to a
  fixed range whenever an artist is added, to run the entry point on.
\<close>

definition ex_storage :: storage where
  "ex_storage = [''f.csv'' \<mapsto> [''x'' \<mapsto> [0, 1, 2], ''y'' \<mapsto> [1, 4, 9]]]"

definition ex_backend :: backend where
  "ex_backend ax = (-100, 100)"

section \<open>Facts about slices and lines\<close>

lemma every_nth_one: "every_nth (Suc 0) xs = xs"
  by (induction xs) simp_all




lemma map_nth_upto:
  assumes "0 \<le> s" and "m < int (length xs)"
  shows "map (\<lambda>i. xs ! nat i) [s..m] = take (nat (m + 1 - s)) (drop (nat s) xs)"
proof (rule nth_equalityI)
  show "length (map (\<lambda>i. xs ! nat i) [s..m]) = length (take (nat (m + 1 - s)) (drop (nat s) xs))"
    using assms by auto
next
  fix j assume "j < length (map (\<lambda>i. xs ! nat i) [s..m])"
  then have j: "s + int j \<le> m" by simp
  then have "nat (s + int j) = nat s + j" using assms(1) by (simp add: nat_add_distrib)
  moreover have "[s..m] ! j = s + int j" using j by simp
  moreover have "j < length [s..m]" using j by simp
  moreover have "j < nat (m + 1 - s)" using j by simp
  moreover have "nat s \<le> length xs" using j assms by simp
  ultimately show "map (\<lambda>i. xs ! nat i) [s..m] ! j = take (nat (m + 1 - s)) (drop (nat s) xs) ! j"
    by (simp del: nth_upto length_upto)
qed

lemma py_slice_clamped:
  assumes "0 \<le> s" and "0 \<le> e"
  shows "py_slice lines s (clamped_end lines e + 1)
       = map (\<lambda>i. lines ! nat i) [s .. min e (int (length lines) - 1)]"
proof -
  let ?n = "length lines"
  let ?m = "min e (int ?n - 1)"
  have stop: "slice_index (clamped_end lines e + 1) ?n = nat (?m + 1)"
    using assms(2) by (auto simp: slice_index_def clamped_end_def min_def)
  have start: "slice_index s ?n = min (nat s) ?n"
    using assms(1) by (simp add: slice_index_def)
  have "py_slice lines s (clamped_end lines e + 1)
      = take (nat (?m + 1) - min (nat s) ?n) (drop (min (nat s) ?n) lines)"
    by (simp add: py_slice_def Let_def stop start)
  also have "\<dots> = take (nat (?m + 1 - s)) (drop (nat s) lines)"
  proof (cases "nat s \<le> ?n")
    case True
    then have "min (nat s) ?n = nat s" by simp
    moreover have "nat (?m + 1) - nat s = nat (?m + 1 - s)" using assms by (simp add: nat_diff_distrib')
    ultimately show ?thesis by simp
  next
    case False
    then show ?thesis by simp
  qed
  also have "\<dots> = map (\<lambda>i. lines ! nat i) [s .. ?m]"
    using assms(1) by (intro map_nth_upto [symmetric]) auto
  finally show ?thesis .
qed


lemma concat_readlines: "concat (readlines t) = t"
  by (induction t) (auto split: list.splits)





lemma copy_range_present:
  "fs (csv_file_name r) = Some text \<Longrightarrow>
   copy_range dst r fs =
     Inr (fs(dst \<mapsto> contents fs dst @ concat (selected_lines r (readlines text))))"
  by (simp add: copy_range_def writelines_def)

lemma selected_lines_unfold:
  "selected_lines r lines =
     (if 1 < line_step r
      then every_nth (nat (line_step r))
             (py_slice lines (line_start r) (clamped_end lines (line_end r) + 1))
      else py_slice lines (line_start r) (clamped_end lines (line_end r) + 1))"
  by (simp add: selected_lines_def py_slice_step_def Let_def)

lemma py_slice_to_end:
  assumes "0 \<le> s" and "int (length xs) \<le> stop"
  shows "py_slice xs s stop = drop (nat s) xs"
proof -
  have "slice_index stop (length xs) = length xs"
    using assms(2) by (simp add: slice_index_def)
  moreover have "slice_index s (length xs) = min (nat s) (length xs)"
    using assms(1) by (simp add: slice_index_def)
  ultimately show ?thesis
    by (cases "nat s \<le> length xs") (simp_all add: py_slice_def Let_def)
qed

lemma selected_lines_overrun:
  assumes "0 \<le> line_start r" and "int (length lines) \<le> line_end r"
  shows "selected_lines r lines
       = every_nth (nat (max 1 (line_step r))) (drop (nat (line_start r)) lines)"
proof -
  have "int (length lines) \<le> clamped_end lines (line_end r) + 1"
    using assms(2) by (simp add: clamped_end_def)
  then have "py_slice lines (line_start r) (clamped_end lines (line_end r) + 1)
      = drop (nat (line_start r)) lines"
    using assms(1) by (intro py_slice_to_end)
  then show ?thesis
    by (simp add: selected_lines_unfold max_def every_nth_one)
qed

lemma selected_lines_cong:
  assumes "line_start r' = line_start r" and "line_step r' = line_step r"
    and "clamped_end lines (line_end r') = clamped_end lines (line_end r)"
  shows "selected_lines r' lines = selected_lines r lines"
  using assms by (simp add: selected_lines_unfold)




section \<open>The claims about combine_csv_files\<close>

text \<open>
  Claim C3. A range descriptor whose end index is at least the number of lines of its
  source copies the lines from start through the last line of the file (every step-th
  one when the step exceeds one): the copy succeeds, no index is out of bounds, and the
  result is the one of the same descriptor with its end set to the last line index.
\<close>

theorem end_overrun_copies_through_last_line:
  assumes "fs (csv_file_name r) = Some text"
    and "0 \<le> line_start r"
    and "int (length (readlines text)) \<le> line_end r"
  shows "copy_range dst r fs =
           Inr (fs(dst \<mapsto> contents fs dst @
                  concat (every_nth (nat (max 1 (line_step r)))
                            (drop (nat (line_start r)) (readlines text)))))
       \<and> (\<forall>r'. csv_file_name r' = csv_file_name r \<and> line_start r' = line_start r \<and>
                line_step r' = line_step r \<and>
                line_end r' = int (length (readlines text)) - 1 \<longrightarrow>
              copy_range dst r' fs = copy_range dst r fs)"
proof -
  let ?lines = "readlines text"
  have a: "copy_range dst r fs =
           Inr (fs(dst \<mapsto> contents fs dst @
                  concat (every_nth (nat (max 1 (line_step r)))
                            (drop (nat (line_start r)) ?lines))))"
    using assms by (simp add: copy_range_present selected_lines_overrun)
  have b: "copy_range dst r' fs = copy_range dst r fs"
    if "csv_file_name r' = csv_file_name r" "line_start r' = line_start r"
      "line_step r' = line_step r" "line_end r' = int (length ?lines) - 1" for r'
  proof -
    have "clamped_end ?lines (line_end r') = clamped_end ?lines (line_end r)
        \<or> (line_end r = int (length ?lines) \<and> clamped_end ?lines (line_end r') = line_end r - 1)"
      using assms(3) that(4) by (auto simp: clamped_end_def)
    then have "selected_lines r' ?lines = selected_lines r ?lines"
    proof
      assume "clamped_end ?lines (line_end r') = clamped_end ?lines (line_end r)"
      with that show ?thesis by (intro selected_lines_cong) simp_all
    next
      assume h: "line_end r = int (length ?lines) \<and>
        clamped_end ?lines (line_end r') = line_end r - 1"
      then have "clamped_end ?lines (line_end r) = line_end r"
        by (simp add: clamped_end_def)
      with h have "py_slice ?lines (line_start r) (clamped_end ?lines (line_end r') + 1)
          = py_slice ?lines (line_start r) (clamped_end ?lines (line_end r) + 1)"
        using assms(2) by (simp add: py_slice_to_end)
      with that show ?thesis by (simp add: selected_lines_unfold)
    qed
    with that(1) assms(1) show ?thesis by (simp add: copy_range_present)
  qed
  from a b show ?thesis by blast
qed

theorem end_overrun_copies_through_last_line_witness:
  "[''a.csv'' \<mapsto> ''r0\<newline>r1\<newline>r2\<newline>r3\<newline>r4\<newline>''] (csv_file_name (Range4 ''a.csv'' 1 10 2))
      = Some ''r0\<newline>r1\<newline>r2\<newline>r3\<newline>r4\<newline>''
   \<and> 0 \<le> line_start (Range4 ''a.csv'' 1 10 2)
   \<and> int (length (readlines ''r0\<newline>r1\<newline>r2\<newline>r3\<newline>r4\<newline>'')) \<le> line_end (Range4 ''a.csv'' 1 10 2)
   \<and> copy_range ''out.csv'' (Range4 ''a.csv'' 1 10 2)
         [''a.csv'' \<mapsto> ''r0\<newline>r1\<newline>r2\<newline>r3\<newline>r4\<newline>'']
       = Inr ([''a.csv'' \<mapsto> ''r0\<newline>r1\<newline>r2\<newline>r3\<newline>r4\<newline>'',
               ''out.csv'' \<mapsto> ''r1\<newline>r3\<newline>''])"
  using end_overrun_copies_through_last_line
    [of "[''a.csv'' \<mapsto> ''r0\<newline>r1\<newline>r2\<newline>r3\<newline>r4\<newline>'']"
        "Range4 ''a.csv'' 1 10 2" "''r0\<newline>r1\<newline>r2\<newline>r3\<newline>r4\<newline>''" "''out.csv''"]
  by (simp add: newline_def contents_def)



text \<open>
  Claim C10. A range descriptor whose start index lies behind its end index, as the code
  clamps it, appends no line and raises nothing: the destination keeps the text that the
  earlier descriptors produced, and every other file is untouched.
\<close>

theorem start_after_end_copies_nothing:
  assumes "fs (csv_file_name r) = Some text"
    and "0 \<le> line_start r" and "0 \<le> line_end r"
    and "clamped_end (readlines text) (line_end r) < line_start r"
  shows "copy_range dst r fs = Inr (fs(dst \<mapsto> contents fs dst))"
proof -
  have "spec_select (readlines text) (line_start r) (line_end r) 1 = []"
    using assms(3,4) by (auto simp: spec_select_def clamped_end_def split: if_splits)
  then have "py_slice (readlines text) (line_start r) (clamped_end (readlines text) (line_end r) + 1) = []"
    using assms(2,3) by (simp add: py_slice_clamped spec_select_def)
  then have "selected_lines r (readlines text) = []"
    by (simp add: selected_lines_unfold)
  with assms(1) show ?thesis by (simp add: copy_range_present)
qed

theorem start_after_end_copies_nothing_witness:
  "[''a.csv'' \<mapsto> ''r0\<newline>r1\<newline>r2'', ''out.csv'' \<mapsto> ''kept\<newline>'']
      (csv_file_name (Range3 ''a.csv'' 5 9)) = Some ''r0\<newline>r1\<newline>r2''
   \<and> 0 \<le> line_start (Range3 ''a.csv'' 5 9) \<and> 0 \<le> line_end (Range3 ''a.csv'' 5 9)
   \<and> clamped_end (readlines ''r0\<newline>r1\<newline>r2'') (line_end (Range3 ''a.csv'' 5 9))
        < line_start (Range3 ''a.csv'' 5 9)
   \<and> copy_range ''out.csv'' (Range3 ''a.csv'' 5 9)
         [''a.csv'' \<mapsto> ''r0\<newline>r1\<newline>r2'', ''out.csv'' \<mapsto> ''kept\<newline>'']
       = Inr [''a.csv'' \<mapsto> ''r0\<newline>r1\<newline>r2'', ''out.csv'' \<mapsto> ''kept\<newline>'']"
  using start_after_end_copies_nothing
    [of "[''a.csv'' \<mapsto> ''r0\<newline>r1\<newline>r2'', ''out.csv'' \<mapsto> ''kept\<newline>'']"
        "Range3 ''a.csv'' 5 9" "''r0\<newline>r1\<newline>r2''" "''out.csv''"]
  by (simp add: newline_def contents_def clamped_end_def)

section \<open>Facts about the data resolver\<close>

lemma str_key_absent:
  "fst ` set names \<subseteq> range KInt \<Longrightarrow> KStr f \<notin> set (map fst names)"
  by auto

lemma update_int_keys:
  "fst ` set names \<subseteq> range KInt \<Longrightarrow> fst ` set (AList.update (KInt n) v names) \<subseteq> range KInt"
  by (auto simp: dom_update)

lemma resolve_xdata_keeps:
  assumes "resolve_xdata sto st ld = Inr r"
  shows "ld_ydata (snd r) = ld_ydata ld \<and> ld_ydata_array (snd r) = ld_ydata_array ld"
  using assms
  by (auto simp: resolve_xdata_def Let_def split: option.splits if_splits prod.splits)

lemma resolve_xdata_int_keys:
  assumes "resolve_xdata sto st ld = Inr r"
    and "fst ` set (data_file_names st) \<subseteq> range KInt"
  shows "fst ` set (data_file_names (fst r)) \<subseteq> range KInt"
proof (cases "ld_xdata ld")
  case None
  with assms(1) have "fst r = st"
    by (auto simp: resolve_xdata_def split: option.splits)
  with assms(2) show ?thesis by simp
next
  case (Some fc)
  obtain f c where fc: "fc = (f, c)" by (cases fc)
  have "KStr f \<notin> set (map fst (data_file_names st))"
    using assms(2) by (rule str_key_absent)
  with assms(1) Some fc obtain tbl where
    "data_file_names (fst r) = AList.update (KInt (nfiles st + 1)) f (data_file_names st)"
    by (auto simp: resolve_xdata_def Let_def split: option.splits)
  with assms(2) show ?thesis by (simp only: update_int_keys)
qed

lemma resolve_ydata_int_keys:
  assumes "resolve_ydata sto st ld = Inr r"
    and "fst ` set (data_file_names st) \<subseteq> range KInt"
  shows "fst ` set (data_file_names (fst r)) \<subseteq> range KInt"
proof (cases "ld_ydata ld")
  case None
  with assms(1) have "fst r = st"
    by (auto simp: resolve_ydata_def split: option.splits)
  with assms(2) show ?thesis by simp
next
  case (Some fc)
  obtain f c where fc: "fc = (f, c)" by (cases fc)
  have "KStr f \<notin> set (map fst (data_file_names st))"
    using assms(2) by (rule str_key_absent)
  with assms(1) Some fc obtain tbl where
    "data_file_names (fst r) = AList.update (KInt (nfiles st + 1)) f (data_file_names st)"
    by (auto simp: resolve_ydata_def Let_def split: option.splits)
  with assms(2) show ?thesis by (simp only: update_int_keys)
qed

lemma resolve_line_int_keys:
  assumes "resolve_line sto st ld = Inr r"
    and "fst ` set (data_file_names st) \<subseteq> range KInt"
  shows "fst ` set (data_file_names (fst r)) \<subseteq> range KInt"
  using assms
  by (auto simp: resolve_line_def split: sum.splits
      dest!: resolve_xdata_int_keys resolve_ydata_int_keys)

lemma resolve_xdata_error:
  assumes "resolve_xdata sto st ld = Inl e"
    and "fst ` set (data_file_names st) \<subseteq> range KInt"
    and "loads sto (ld_xdata ld)"
  shows "e = ValueError ''xdata or xdata_array is missing in line_cfg''"
proof (cases "ld_xdata ld")
  case None
  with assms(1) show ?thesis
    by (auto simp: resolve_xdata_def split: option.splits)
next
  case (Some fc)
  obtain f c where fc: "fc = (f, c)" by (cases fc)
  have "KStr f \<notin> set (map fst (data_file_names st))"
    using assms(2) by (rule str_key_absent)
  with assms(1,3) Some fc show ?thesis
    by (auto simp: resolve_xdata_def loads_def Let_def split: option.splits)
qed

lemma resolve_ydata_error:
  assumes "resolve_ydata sto st ld = Inl e"
    and "fst ` set (data_file_names st) \<subseteq> range KInt"
    and "loads sto (ld_ydata ld)"
  shows "e = ValueError ''ydata or ydata_array is missing in line_cfg''"
proof (cases "ld_ydata ld")
  case None
  with assms(1) show ?thesis
    by (auto simp: resolve_ydata_def split: option.splits)
next
  case (Some fc)
  obtain f c where fc: "fc = (f, c)" by (cases fc)
  have "KStr f \<notin> set (map fst (data_file_names st))"
    using assms(2) by (rule str_key_absent)
  with assms(1,3) Some fc show ?thesis
    by (auto simp: resolve_ydata_def loads_def Let_def split: option.splits)
qed

lemma resolve_line_error:
  assumes "resolve_line sto st ld = Inl e"
    and "fst ` set (data_file_names st) \<subseteq> range KInt"
    and "loads sto (ld_xdata ld)" and "loads sto (ld_ydata ld)"
  shows "e = ValueError ''xdata or xdata_array is missing in line_cfg''
       \<or> e = ValueError ''ydata or ydata_array is missing in line_cfg''"
proof (cases "resolve_xdata sto st ld")
  case (Inl e')
  with assms(1) have "e' = e" by (simp add: resolve_line_def)
  with Inl assms(2,3) show ?thesis by (auto dest: resolve_xdata_error)
next
  case (Inr r)
  with assms(1) have y: "resolve_ydata sto (fst r) (snd r) = Inl e"
    by (simp add: resolve_line_def)
  have "fst ` set (data_file_names (fst r)) \<subseteq> range KInt"
    using Inr assms(2) by (rule resolve_xdata_int_keys)
  moreover have "loads sto (ld_ydata (snd r))"
    using resolve_xdata_keeps [OF Inr] assms(4) by simp
  ultimately show ?thesis using y by (auto dest: resolve_ydata_error)
qed

lemma resolve_line_missing:
  assumes "missing_source ld"
  shows "\<exists>e. resolve_line sto st ld = Inl e"
proof (cases "resolve_xdata sto st ld")
  case (Inl e)
  then show ?thesis by (simp add: resolve_line_def)
next
  case (Inr r)
  then have x: "\<not> (ld_xdata ld = None \<and> ld_xdata_array ld = None)"
    by (cases "ld_xdata ld"; cases "ld_xdata_array ld") (simp_all add: resolve_xdata_def)
  with assms have "ld_ydata ld = None \<and> ld_ydata_array ld = None"
    by (auto simp: missing_source_def)
  then have "ld_ydata (snd r) = None \<and> ld_ydata_array (snd r) = None"
    using resolve_xdata_keeps [OF Inr] by simp
  then have "resolve_ydata sto (fst r) (snd r)
      = Inl (ValueError ''ydata or ydata_array is missing in line_cfg'')"
    by (simp add: resolve_ydata_def)
  with Inr show ?thesis by (simp add: resolve_line_def)
qed

lemma resolve_lines_missing:
  assumes "missing_source ld"
  shows "\<exists>e. resolve_lines sto st (pre @ (i, ld) # post) = Inl e"
proof (induction pre arbitrary: st)
  case Nil
  from resolve_line_missing [OF assms] obtain e where "resolve_line sto st ld = Inl e"
    by blast
  then show ?case by simp
next
  case (Cons p pre)
  obtain j l where p: "p = (j, l)" by (cases p)
  show ?case
  proof (cases "resolve_line sto st l")
    case (Inl e)
    with p show ?thesis by simp
  next
    case (Inr r)
    from Cons.IH [of "fst r"] obtain e where
      "resolve_lines sto (fst r) (pre @ (i, ld) # post) = Inl e" by blast
    with Inr p show ?thesis by simp
  qed
qed

lemma resolve_lines_error:
  assumes "resolve_lines sto st lc = Inl e"
    and "fst ` set (data_file_names st) \<subseteq> range KInt"
    and "\<forall>p\<in>set lc. loads sto (ld_xdata (snd p)) \<and> loads sto (ld_ydata (snd p))"
  shows "e = ValueError ''xdata or xdata_array is missing in line_cfg''
       \<or> e = ValueError ''ydata or ydata_array is missing in line_cfg''"
  using assms
proof (induction lc arbitrary: st)
  case Nil
  then show ?case by simp
next
  case (Cons p lc)
  obtain j l where p: "p = (j, l)" by (cases p)
  show ?case
  proof (cases "resolve_line sto st l")
    case (Inl e')
    with Cons.prems(1) p have "e' = e" by simp
    with Inl Cons.prems(2,3) p show ?thesis
      by (auto dest: resolve_line_error)
  next
    case (Inr r)
    with Cons.prems(1) p have "resolve_lines sto (fst r) lc = Inl e"
      by (simp split: sum.splits)
    moreover have "fst ` set (data_file_names (fst r)) \<subseteq> range KInt"
      using Inr Cons.prems(2) by (rule resolve_line_int_keys)
    ultimately show ?thesis using Cons.prems(3) by (intro Cons.IH) simp_all
  qed
qed

lemma resolve_lines_prefix_error:
  assumes "resolve_lines sto st (pre @ post) = Inl e"
    and "\<exists>e'. resolve_lines sto st pre = Inl e'"
  shows "resolve_lines sto st pre = Inl e"
  using assms
proof (induction pre arbitrary: st)
  case Nil
  then show ?case by simp
next
  case (Cons p pre)
  obtain j l where p: "p = (j, l)" by (cases p)
  show ?case
  proof (cases "resolve_line sto st l")
    case (Inl e')
    with Cons.prems p show ?thesis by simp
  next
    case (Inr r)
    with Cons.prems p have "resolve_lines sto (fst r) (pre @ post) = Inl e"
      and "\<exists>e'. resolve_lines sto (fst r) pre = Inl e'"
      by (auto split: sum.splits)
    then have "resolve_lines sto (fst r) pre = Inl e" by (rule Cons.IH)
    with Inr p show ?thesis by simp
  qed
qed

lemma resolve_xdata_reads:
  assumes "resolve_xdata sto st ld = Inr r"
    and "fst ` set (data_file_names st) \<subseteq> range KInt"
  shows "reads (fst r) = reads st @ (case ld_xdata ld of None \<Rightarrow> [] | Some fc \<Rightarrow> [fst fc])"
proof (cases "ld_xdata ld")
  case None
  with assms(1) show ?thesis
    by (auto simp: resolve_xdata_def split: option.splits)
next
  case (Some fc)
  obtain f c where fc: "fc = (f, c)" by (cases fc)
  have "KStr f \<notin> set (map fst (data_file_names st))"
    using assms(2) by (rule str_key_absent)
  with assms(1) Some fc show ?thesis
    by (auto simp: resolve_xdata_def Let_def split: option.splits)
qed

lemma resolve_ydata_reads:
  assumes "resolve_ydata sto st ld = Inr r"
    and "fst ` set (data_file_names st) \<subseteq> range KInt"
  shows "reads (fst r) = reads st @ (case ld_ydata ld of None \<Rightarrow> [] | Some fc \<Rightarrow> [fst fc])"
proof (cases "ld_ydata ld")
  case None
  with assms(1) show ?thesis
    by (auto simp: resolve_ydata_def split: option.splits)
next
  case (Some fc)
  obtain f c where fc: "fc = (f, c)" by (cases fc)
  have "KStr f \<notin> set (map fst (data_file_names st))"
    using assms(2) by (rule str_key_absent)
  with assms(1) Some fc show ?thesis
    by (auto simp: resolve_ydata_def Let_def split: option.splits)
qed

lemma resolve_line_reads:
  assumes "resolve_line sto st ld = Inr r"
    and "fst ` set (data_file_names st) \<subseteq> range KInt"
  shows "reads (fst r) = reads st @ referenced_files ld"
proof -
  from assms(1) obtain r1 where x: "resolve_xdata sto st ld = Inr r1"
    and y: "resolve_ydata sto (fst r1) (snd r1) = Inr r"
    by (auto simp: resolve_line_def split: sum.splits)
  have keys: "fst ` set (data_file_names (fst r1)) \<subseteq> range KInt"
    using x assms(2) by (rule resolve_xdata_int_keys)
  have "reads (fst r) = reads (fst r1) @ (case ld_ydata (snd r1) of None \<Rightarrow> [] | Some fc \<Rightarrow> [fst fc])"
    using y keys by (rule resolve_ydata_reads)
  moreover have "reads (fst r1) = reads st @ (case ld_xdata ld of None \<Rightarrow> [] | Some fc \<Rightarrow> [fst fc])"
    using x assms(2) by (rule resolve_xdata_reads)
  moreover have "ld_ydata (snd r1) = ld_ydata ld"
    using resolve_xdata_keeps [OF x] by simp
  ultimately show ?thesis by (simp add: referenced_files_def)
qed

lemma resolve_lines_reads:
  assumes "resolve_lines sto st lc = Inr r"
    and "fst ` set (data_file_names st) \<subseteq> range KInt"
  shows "reads (fst r) = reads st @ concat (map (\<lambda>p. referenced_files (snd p)) lc)"
  using assms
proof (induction lc arbitrary: st r)
  case Nil
  then show ?case by auto
next
  case (Cons p lc)
  obtain j l where p: "p = (j, l)" by (cases p)
  from Cons.prems(1) p obtain r1 r2 where one: "resolve_line sto st l = Inr r1"
    and rest: "resolve_lines sto (fst r1) lc = Inr r2" and r: "fst r = fst r2"
    by (auto split: sum.splits)
  have keys: "fst ` set (data_file_names (fst r1)) \<subseteq> range KInt"
    using one Cons.prems(2) by (rule resolve_line_int_keys)
  have "reads (fst r2) = reads (fst r1) @ concat (map (\<lambda>p. referenced_files (snd p)) lc)"
    using rest keys by (rule Cons.IH)
  moreover have "reads (fst r1) = reads st @ referenced_files l"
    using one Cons.prems(2) by (rule resolve_line_reads)
  ultimately show ?case using r p by simp
qed

section \<open>Facts about the renderer\<close>

lemma upd_axes_fields [simp]:
  "f_saved (upd_axes i f fig) = f_saved fig"
  "f_nrows (upd_axes i f fig) = f_nrows fig"
  "f_ncols (upd_axes i f fig) = f_ncols fig"
  "f_next_uid (upd_axes i f fig) = f_next_uid fig"
  "length (f_axes (upd_axes i f fig)) = length (f_axes fig)"
  by (simp_all add: upd_axes_def)

lemma upd_axes_nth:
  "i < length (f_axes fig) \<Longrightarrow> f_axes (upd_axes i f fig) ! i = f (f_axes fig ! i)"
  "j \<noteq> i \<Longrightarrow> f_axes (upd_axes i f fig) ! j = f_axes fig ! j"
  by (simp_all add: upd_axes_def)

lemma plot_saved [simp]: "f_saved (fst (plot bk i x y ld fig)) = f_saved fig"
  by (simp add: plot_def Let_def)

lemma twinx_saved [simp]: "f_saved (fst (twinx i fig)) = f_saved fig"
  by (simp add: twinx_def)

lemma draw_line_saved:
  "draw_line bk lc ax line_id s = Inr s' \<Longrightarrow> f_saved (fst s') = f_saved (fst s)"
  by (auto simp: draw_line_def Let_def split: option.splits if_splits)

lemma draw_lines_saved:
  "draw_lines bk lc ax ids s = Inr s' \<Longrightarrow> f_saved (fst s') = f_saved (fst s)"
proof (induction ids arbitrary: s)
  case Nil
  then show ?case by simp
next
  case (Cons line_id ids)
  then show ?case
    by (auto split: sum.splits dest: draw_line_saved)
qed

lemma shade_span_saved [simp]: "f_saved (shade_span bk pd ax fig) = f_saved fig"
  by (simp add: shade_span_def fill_between_def Let_def split: option.splits)

lemma subplot_legend_saved:
  "subplot_legend pd ax hs fig = Inr fig' \<Longrightarrow> f_saved fig' = f_saved fig"
  by (auto simp: subplot_legend_def Let_def split: option.splits)

lemma render_subplot_saved:
  "render_subplot bk lc plot_id pd fig = Inr fig' \<Longrightarrow> f_saved fig' = f_saved fig"
  by (auto simp: render_subplot_def split: option.splits sum.splits
      dest!: draw_lines_saved subplot_legend_saved)

lemma render_subplots_saved:
  "render_subplots bk lc pc fig = Inr fig' \<Longrightarrow> f_saved fig' = f_saved fig"
proof (induction pc arbitrary: fig)
  case Nil
  then show ?case by simp
next
  case (Cons p pc)
  then show ?case
    by (cases p) (auto split: sum.splits dest: render_subplot_saved)
qed

lemma figure_legend_saved:
  "figure_legend cfg fig = Inr fig' \<Longrightarrow> f_saved fig' = f_saved fig"
  by (auto simp: figure_legend_def Let_def split: option.splits if_splits)

lemma save_figure_saved:
  "f_saved (save_figure cfg fig) =
     f_saved fig @
       (dict_get (fc_file_path cfg) ''./'' @ dict_get (fc_filename cfg) ''new_fig''
          @ ''.'' @ dict_get (fc_fig_format cfg) ''png'') #
       (if dict_get (fc_fig_format cfg) ''png'' \<noteq> ''png''
        then [dict_get (fc_file_path cfg) ''./'' @ dict_get (fc_filename cfg) ''new_fig'' @ ''.png'']
        else [])"
  by (simp add: save_figure_def savefig_def Let_def)

lemma fill_between_length [simp]:
  "length (f_axes (fill_between bk i x y1 y2 wh kw fig)) = length (f_axes fig)"
  by (simp add: fill_between_def)

lemma upd_axes_last:
  "f_axes fig = xs @ [t] \<Longrightarrow> f_axes (upd_axes (length xs) f fig) = xs @ [f t]"
  by (simp add: upd_axes_def)

lemma plot_last:
  "f_axes fig = xs @ [t] \<Longrightarrow>
   f_axes (fst (plot bk (length xs) x y ld fig))
     = xs @ [add_artist bk (Line (snd (plot bk (length xs) x y ld fig))) t]"
  by (simp add: plot_def Let_def upd_axes_def)

lemma plot_handle:
  "l_xdata (snd (plot bk i x y ld fig)) = x"
  "l_ydata (snd (plot bk i x y ld fig)) = y"
  "l_label (snd (plot bk i x y ld fig)) = ld_label ld"
  by (simp_all add: plot_def Let_def)

lemma draw_line_right:
  assumes "draw_line bk lc ax i s = Inr s'" and "on_right_axis lc i"
  shows "\<exists>t. f_axes (fst s') = f_axes (fst s) @ [t] \<and> twin_of_line lc ax t i"
proof -
  from assms(2) obtain ld where ld: "map_of lc i = Some ld" and r: "truthy (ld_rightYAxis ld)"
    by (auto simp: on_right_axis_def split: option.splits)
  from assms(1) ld obtain xdata ydata where x: "ld_xdata_array ld = Some xdata"
    and y: "ld_ydata_array ld = Some ydata"
    by (auto simp: draw_line_def Let_def split: option.splits)
  let ?xs = "f_axes (fst s)"
  let ?n = "length ?xs"
  define t0 where "t0 = new_axes\<lparr>a_twin_of := Some ax\<rparr>"
  define t1 where "t1 = t0\<lparr>a_ylabel := ld_rightYAxis ld\<rparr>"
  define t2 where "t2 = (case ld_ylim_right ld of Some l \<Rightarrow> t1\<lparr>a_ylim := l\<rparr> | None \<Rightarrow> t1)"
  define t3 where "t3 = (if flag (ld_rightYAxis_percentage ld)
                         then t2\<lparr>a_yformatter := PercentFormatter\<rparr> else t2)"
  define m where "m = snd (twinx ax (fst s))"
  define fig0 where "fig0 = fst (twinx ax (fst s))"
  define fig1 where "fig1 = upd_axes m (\<lambda>a. a\<lparr>a_ylabel := ld_rightYAxis ld\<rparr>) fig0"
  define fig2 where "fig2 = (case ld_ylim_right ld of
                               Some l \<Rightarrow> upd_axes m (\<lambda>a. a\<lparr>a_ylim := l\<rparr>) fig1
                             | None \<Rightarrow> fig1)"
  define fig3 where "fig3 = (if flag (ld_rightYAxis_percentage ld)
                             then upd_axes m (\<lambda>a. a\<lparr>a_yformatter := PercentFormatter\<rparr>) fig2
                             else fig2)"
  define p where "p = plot bk m xdata ydata ld fig3"
  have "draw_line bk lc ax i s = Inr (fst p, (snd s)(i \<mapsto> snd p))"
    unfolding draw_line_def Let_def p_def fig3_def fig2_def fig1_def fig0_def m_def
    by (simp only: ld x y r option.case if_True)
  with assms(1) have s': "fst s' = fst p" by auto
  have m: "m = ?n" by (simp add: m_def twinx_def)
  have a0: "f_axes fig0 = ?xs @ [t0]" by (simp add: fig0_def twinx_def t0_def)
  then have a1: "f_axes fig1 = ?xs @ [t1]"
    unfolding fig1_def t1_def m by (rule upd_axes_last)
  have a2: "f_axes fig2 = ?xs @ [t2]"
  proof (cases "ld_ylim_right ld")
    case None
    with a1 show ?thesis by (simp add: fig2_def t2_def)
  next
    case (Some l)
    with upd_axes_last [OF a1, of "\<lambda>a. a\<lparr>a_ylim := l\<rparr>"] show ?thesis
      by (simp add: fig2_def t2_def m)
  qed
  have a3: "f_axes fig3 = ?xs @ [t3]"
  proof (cases "flag (ld_rightYAxis_percentage ld)")
    case False
    with a2 show ?thesis by (simp add: fig3_def t3_def)
  next
    case True
    with upd_axes_last [OF a2, of "\<lambda>a. a\<lparr>a_yformatter := PercentFormatter\<rparr>"] show ?thesis
      by (simp add: fig3_def t3_def m)
  qed
  define t where "t = add_artist bk (Line (snd p)) t3"
  have "f_axes (fst p) = ?xs @ [t]"
    unfolding p_def t_def m using a3 by (rule plot_last)
  with s' have axes: "f_axes (fst s') = ?xs @ [t]" by simp
  have t3: "a_twin_of t3 = Some ax" "a_ylabel t3 = ld_rightYAxis ld" "a_children t3 = []"
    by (simp_all add: t3_def t2_def t1_def t0_def new_axes_def split: option.splits)
  have "twin_of_line lc ax t i"
    using ld x y t3
    by (simp add: twin_of_line_def t_def add_artist_def Let_def drawn_from_def p_def plot_handle)
  with axes show ?thesis by blast
qed

lemma draw_line_primary:
  assumes "draw_line bk lc ax i s = Inr s'" and "\<not> on_right_axis lc i"
  shows "\<exists>a. f_axes (fst s') = (f_axes (fst s))[ax := a]"
  using assms
  by (auto simp: draw_line_def on_right_axis_def Let_def plot_def upd_axes_def
      split: option.splits if_splits)

lemma draw_line_others:
  assumes "draw_line bk lc ax i s = Inr s'"
  shows "length (f_axes (fst s)) \<le> length (f_axes (fst s'))
       \<and> (\<forall>j<length (f_axes (fst s)). j \<noteq> ax \<longrightarrow> f_axes (fst s') ! j = f_axes (fst s) ! j)"
proof (cases "on_right_axis lc i")
  case True
  from draw_line_right [OF assms True] show ?thesis by (auto simp: nth_append)
next
  case False
  from draw_line_primary [OF assms False] show ?thesis by auto
qed

lemma draw_lines_others:
  assumes "draw_lines bk lc ax ids s = Inr s'"
  shows "length (f_axes (fst s)) \<le> length (f_axes (fst s'))
       \<and> (\<forall>j<length (f_axes (fst s)). j \<noteq> ax \<longrightarrow> f_axes (fst s') ! j = f_axes (fst s) ! j)"
  using assms
proof (induction ids arbitrary: s)
  case Nil
  then show ?case by simp
next
  case (Cons i ids)
  from Cons.prems obtain s1 where one: "draw_line bk lc ax i s = Inr s1"
    and rest: "draw_lines bk lc ax ids s1 = Inr s'"
    by (auto split: sum.splits)
  from draw_line_others [OF one] Cons.IH [OF rest] show ?case by auto
qed

lemma draw_lines_twins:
  assumes "draw_lines bk lc ax ids s = Inr s'" and "ax < length (f_axes (fst s))"
  shows "list_all2 (twin_of_line lc ax)
           (drop (length (f_axes (fst s))) (f_axes (fst s'))) (filter (on_right_axis lc) ids)"
  using assms
proof (induction ids arbitrary: s)
  case Nil
  then show ?case by simp
next
  case (Cons i ids)
  let ?n = "length (f_axes (fst s))"
  from Cons.prems(1) obtain s1 where one: "draw_line bk lc ax i s = Inr s1"
    and rest: "draw_lines bk lc ax ids s1 = Inr s'"
    by (auto split: sum.splits)
  have grow: "?n \<le> length (f_axes (fst s1))"
    using draw_line_others [OF one] by simp
  with Cons.prems(2) have ax1: "ax < length (f_axes (fst s1))" by simp
  have IH: "list_all2 (twin_of_line lc ax)
           (drop (length (f_axes (fst s1))) (f_axes (fst s'))) (filter (on_right_axis lc) ids)"
    using rest ax1 by (rule Cons.IH)
  show ?case
  proof (cases "on_right_axis lc i")
    case True
    from draw_line_right [OF one True] obtain t where
      t: "f_axes (fst s1) = f_axes (fst s) @ [t]" and tw: "twin_of_line lc ax t i" by blast
    then have len1: "length (f_axes (fst s1)) = Suc ?n" by simp
    have later: "Suc ?n \<le> length (f_axes (fst s'))"
      using draw_lines_others [OF rest] len1 by simp
    have "?n \<noteq> ax" using Cons.prems(2) by simp
    then have "f_axes (fst s') ! ?n = f_axes (fst s1) ! ?n"
      using draw_lines_others [OF rest] len1 by simp
    then have "f_axes (fst s') ! ?n = t" using t by simp
    then have "drop ?n (f_axes (fst s')) = t # drop (Suc ?n) (f_axes (fst s'))"
      using later by (simp add: Cons_nth_drop_Suc [symmetric])
    with IH tw True len1 show ?thesis by simp
  next
    case False
    from draw_line_primary [OF one False] have "length (f_axes (fst s1)) = ?n" by auto
    with IH False show ?thesis by simp
  qed
qed

lemma lookup_all_map:
  "lookup_all hs ids = Some hl \<Longrightarrow> map Some hl = map hs ids"
  by (induction ids arbitrary: hl) (auto split: option.splits)

text \<open>The definitions a run of the entry point on given dictionaries unfolds.\<close>

lemma builder_accepts_no_error: "builder_accepts cfg \<Longrightarrow> builder_error cfg = None"
  by (simp add: builder_accepts_def builder_error_def Let_def)

lemma call_subplots_ajdust_cases:
  "call_subplots_ajdust cfg = Inr fig \<Longrightarrow> fig = subplots_ajdust cfg"
  "call_subplots_ajdust cfg = Inl e \<Longrightarrow> builder_error cfg = Some e"
  by (auto simp: call_subplots_ajdust_def split: option.splits)

lemmas eval_defs = plot_line2D_def call_subplots_ajdust_def builder_error_def builder_accepts_def
  subplots_ajdust_def resolve_xdata_def resolve_ydata_def resolve_line_def
  init_resolver_def render_subplot_def draw_line_def plot_def twinx_def add_artist_def
  upd_axes_def shade_span_def fill_between_def subplot_legend_def figure_legend_def
  save_figure_def savefig_def configure_axes_def flat_index_def get_legend_handles_labels_def
  shown_in_legend_def dict_get_def truthy_def flag_def new_axes_def final_figure_def
  empty_fig_cfg_def empty_plot_data_def empty_line_data_def legend_labels_def
  drawn_artists_def ex_storage_def ex_backend_def Let_def

section \<open>The claims about plot_line2D\<close>

text \<open>
  Claim C1. During one call of \<open>plot_line2D\<close> every distinct file path should be read once,
  however many x or y references name it. The code reads it once per reference: the
  membership test looks among the integer keys of \<open>data_file_names\<close>, where a path never is.
  For one line whose x and y columns come from the same file, the call completes and the
  file has been read twice.
\<close>

theorem same_file_read_twice:
  "\<not> isl (plot_line2D ex_backend ex_storage empty_fig_cfg
            [(1, empty_plot_data\<lparr>pd_line := Some [1]\<rparr>)]
            [(1, empty_line_data\<lparr>ld_xdata := Some (''f.csv'', ''x''),
                                  ld_ydata := Some (''f.csv'', ''y'')\<rparr>)])
   \<and> storage_reads (plot_line2D ex_backend ex_storage empty_fig_cfg
            [(1, empty_plot_data\<lparr>pd_line := Some [1]\<rparr>)]
            [(1, empty_line_data\<lparr>ld_xdata := Some (''f.csv'', ''x''),
                                  ld_ydata := Some (''f.csv'', ''y'')\<rparr>)])
       = [''f.csv'', ''f.csv'']"
  by (simp add: eval_defs storage_reads_def)

text \<open>
  Claim C2. The legend of a subplot should show exactly the handles of the identifiers
  of its legend list, in that order. With \<open>bbox_to_anchor\<close> configured the code calls
  \<open>ax.legend\<close> a second time without handles, which replaces the legend by one of every
  labelled artist of the primary axes: for the lines 1 and 2, labelled A and B, and the
  legend list \<open>[1]\<close>, the legend of the subplot shows A and B.
\<close>

theorem anchored_legend_shows_unlisted_line:
  "\<not> isl (plot_line2D ex_backend Map.empty empty_fig_cfg
            [(1, empty_plot_data\<lparr>pd_line := Some [1, 2], pd_legend := Some [1],
                                  pd_bbox_to_anchor := Some [1, 1]\<rparr>)]
            [(1, empty_line_data\<lparr>ld_xdata_array := Some [0, 1], ld_ydata_array := Some [2, 3],
                                  ld_label := Some ''A''\<rparr>),
             (2, empty_line_data\<lparr>ld_xdata_array := Some [0, 1], ld_ydata_array := Some [5, 8],
                                  ld_label := Some ''B''\<rparr>)])
   \<and> legend_labels (f_axes (final_figure (plot_line2D ex_backend Map.empty empty_fig_cfg
            [(1, empty_plot_data\<lparr>pd_line := Some [1, 2], pd_legend := Some [1],
                                  pd_bbox_to_anchor := Some [1, 1]\<rparr>)]
            [(1, empty_line_data\<lparr>ld_xdata_array := Some [0, 1], ld_ydata_array := Some [2, 3],
                                  ld_label := Some ''A''\<rparr>),
             (2, empty_line_data\<lparr>ld_xdata_array := Some [0, 1], ld_ydata_array := Some [5, 8],
                                  ld_label := Some ''B''\<rparr>)])) ! 0)
       = [Some ''A'', Some ''B'']"
  by (simp add: eval_defs)

text \<open>
  Claim C4, amended. When a line entry has neither reference nor array for its x data, or
  neither for its y data, the call fails before any rendering: no artist is drawn on any
  axes and nothing is saved. The error is the \<open>ValueError\<close> of the missing x or y source
  whenever the builder accepts the figure configuration and every reference of the entries
  up to and including that one loads. (As the claim is written it fails: what is raised
  first wins, and an earlier reference to a file that is not there raises
  \<open>FileNotFoundError\<close> before the entry is reached, see the counterexample; an error of the
  builder, which runs before the resolver, comes earlier still.)
\<close>

theorem missing_source_fails_before_drawing:
  assumes "missing_source ld"
  shows "\<exists>e. plot_line2D bk sto cfg pc (pre @ (i, ld) # post) = Inl (e, subplots_ajdust cfg)
           \<and> drawn_artists (subplots_ajdust cfg) = []
           \<and> f_saved (subplots_ajdust cfg) = []
           \<and> (builder_accepts cfg \<and>
                (\<forall>p\<in>set (pre @ [(i, ld)]).
                  loads sto (ld_xdata (snd p)) \<and> loads sto (ld_ydata (snd p))) \<longrightarrow>
                e = ValueError ''xdata or xdata_array is missing in line_cfg''
                \<or> e = ValueError ''ydata or ydata_array is missing in line_cfg'')"
proof (cases "builder_error cfg")
  case (Some b)
  have "plot_line2D bk sto cfg pc (pre @ (i, ld) # post) = Inl (b, subplots_ajdust cfg)"
    using Some by (simp add: plot_line2D_def call_subplots_ajdust_def)
  moreover have "drawn_artists (subplots_ajdust cfg) = []" "f_saved (subplots_ajdust cfg) = []"
    by (simp_all add: drawn_artists_def subplots_ajdust_def new_axes_def Let_def)
  moreover have "\<not> builder_accepts cfg"
    using Some builder_accepts_no_error [of cfg] by auto
  ultimately show ?thesis by blast
next
  case None
  from resolve_lines_missing [OF assms] obtain e where
    e: "resolve_lines sto init_resolver (pre @ (i, ld) # post) = Inl e" by blast
  have call: "plot_line2D bk sto cfg pc (pre @ (i, ld) # post) = Inl (e, subplots_ajdust cfg)"
    using e None by (simp add: plot_line2D_def call_subplots_ajdust_def)
  have fresh: "drawn_artists (subplots_ajdust cfg) = []" "f_saved (subplots_ajdust cfg) = []"
    by (simp_all add: drawn_artists_def subplots_ajdust_def new_axes_def Let_def)
  have kind: "e = ValueError ''xdata or xdata_array is missing in line_cfg''
                \<or> e = ValueError ''ydata or ydata_array is missing in line_cfg''"
    if ok: "\<forall>p\<in>set (pre @ [(i, ld)]).
                  loads sto (ld_xdata (snd p)) \<and> loads sto (ld_ydata (snd p))"
  proof -
    have "\<exists>e'. resolve_lines sto init_resolver ((pre @ [(i, ld)]) @ []) = Inl e'"
      using resolve_lines_missing [OF assms, of sto init_resolver pre i "[]"] by simp
    moreover have "resolve_lines sto init_resolver ((pre @ [(i, ld)]) @ post) = Inl e"
      using e by simp
    ultimately have "resolve_lines sto init_resolver (pre @ [(i, ld)]) = Inl e"
      using resolve_lines_prefix_error [of sto init_resolver "pre @ [(i, ld)]" post e] by simp
    moreover have "fst ` set (data_file_names init_resolver) \<subseteq> range KInt"
      by (simp add: init_resolver_def)
    ultimately show ?thesis using ok by (rule resolve_lines_error)
  qed
  from call fresh kind show ?thesis by blast
qed

theorem missing_source_fails_before_drawing_witness:
  "missing_source (empty_line_data\<lparr>ld_xdata := Some (''f.csv'', ''x'')\<rparr>)
   \<and> builder_accepts empty_fig_cfg
   \<and> plot_line2D ex_backend ex_storage empty_fig_cfg
       [(1, empty_plot_data\<lparr>pd_line := Some [1, 2]\<rparr>)]
       [(1, empty_line_data\<lparr>ld_xdata := Some (''f.csv'', ''x''), ld_ydata := Some (''f.csv'', ''y'')\<rparr>),
        (2, empty_line_data\<lparr>ld_xdata := Some (''f.csv'', ''x'')\<rparr>)]
     = Inl (ValueError ''ydata or ydata_array is missing in line_cfg'', subplots_ajdust empty_fig_cfg)
   \<and> drawn_artists (subplots_ajdust empty_fig_cfg) = []"
  using missing_source_fails_before_drawing
    [of "empty_line_data\<lparr>ld_xdata := Some (''f.csv'', ''x'')\<rparr>" ex_backend ex_storage empty_fig_cfg
        "[(1, empty_plot_data\<lparr>pd_line := Some [1, 2]\<rparr>)]"
        "[(1, empty_line_data\<lparr>ld_xdata := Some (''f.csv'', ''x''), ld_ydata := Some (''f.csv'', ''y'')\<rparr>)]"
        2 "[]"]
  by (simp add: eval_defs missing_source_def)

theorem earlier_missing_file_wins_counterexample:
  "missing_source empty_line_data
   \<and> builder_accepts empty_fig_cfg
   \<and> plot_line2D ex_backend ex_storage empty_fig_cfg
       [(1, empty_plot_data\<lparr>pd_line := Some [1, 2]\<rparr>)]
       [(1, empty_line_data\<lparr>ld_xdata := Some (''gone.csv'', ''x''), ld_ydata := Some (''f.csv'', ''y'')\<rparr>),
        (2, empty_line_data)]
     = Inl (FileNotFoundError ''gone.csv'', subplots_ajdust empty_fig_cfg)"
  by (simp add: eval_defs missing_source_def)

text \<open>
  Claim C5. For every subplot, the y limits of the primary axes after the span-shading
  step are the y limits it had when the step began, that is after the lines were drawn,
  whether or not a span is configured and whatever the library does to the view when the
  region is filled.
\<close>

theorem shading_keeps_ylim:
  assumes "ax < length (f_axes fig)"
  shows "a_ylim (f_axes (shade_span bk pd ax fig) ! ax) = a_ylim (f_axes fig ! ax)"
proof -
  define fig1 where "fig1 =
    (case pd_xspan pd of
       None \<Rightarrow> fig
     | Some xspan \<Rightarrow>
         (case pd_yspan pd of
            None \<Rightarrow> fig
          | Some yspan \<Rightarrow>
              fill_between bk ax xspan (fst (a_ylim (f_axes fig ! ax)))
                (snd (a_ylim (f_axes fig ! ax))) (map (\<lambda>y. y > 0) yspan)
                (dict_get (pd_fill_properties pd) []) fig))"
  have len: "ax < length (f_axes fig1)"
    using assms by (simp add: fig1_def split: option.splits)
  have "shade_span bk pd ax fig =
      upd_axes ax (\<lambda>a. a\<lparr>a_ylim := a_ylim (f_axes fig ! ax)\<rparr>) fig1"
    by (simp add: shade_span_def fig1_def Let_def)
  with len show ?thesis by (simp add: upd_axes_nth)
qed

theorem shading_keeps_ylim_witness:
  "f_axes (upd_axes 0 (\<lambda>a. a\<lparr>a_ylim := (-5, 7)\<rparr>) (subplots_ajdust empty_fig_cfg)) \<noteq> []
   \<and> a_ylim (f_axes (fill_between ex_backend 0 [0, 1] (-5) 7 [True, False] []
        (upd_axes 0 (\<lambda>a. a\<lparr>a_ylim := (-5, 7)\<rparr>) (subplots_ajdust empty_fig_cfg))) ! 0) = (-100, 100)
   \<and> a_ylim (f_axes (shade_span ex_backend
        (empty_plot_data\<lparr>pd_xspan := Some [0, 1], pd_yspan := Some [1, 0]\<rparr>) 0
        (upd_axes 0 (\<lambda>a. a\<lparr>a_ylim := (-5, 7)\<rparr>) (subplots_ajdust empty_fig_cfg))) ! 0) = (-5, 7)"
  using shading_keeps_ylim [of 0 "upd_axes 0 (\<lambda>a. a\<lparr>a_ylim := (-5, 7)\<rparr>) (subplots_ajdust empty_fig_cfg)"
      ex_backend "empty_plot_data\<lparr>pd_xspan := Some [0, 1], pd_yspan := Some [1, 0]\<rparr>"]
  by (simp add: eval_defs)

text \<open>
  Claim C7. A call that completes has saved the figure to
  \<open>file_path + filename + '.' + fig_format\<close>, with the defaults \<open>./\<close>, \<open>new_fig\<close> and \<open>png\<close>,
  then, when the format is not \<open>png\<close>, to the same path and filename with the extension
  \<open>.png\<close>, and to nothing else; for the format \<open>png\<close> the one file is the only one.
\<close>

theorem output_writer_paths:
  assumes "plot_line2D bk sto cfg pc lc = Inr (fig, rd)"
  shows "f_saved fig =
           (dict_get (fc_file_path cfg) ''./'' @ dict_get (fc_filename cfg) ''new_fig''
              @ ''.'' @ dict_get (fc_fig_format cfg) ''png'') #
           (if dict_get (fc_fig_format cfg) ''png'' \<noteq> ''png''
            then [dict_get (fc_file_path cfg) ''./'' @ dict_get (fc_filename cfg) ''new_fig''
                    @ ''.png'']
            else [])"
proof -
  from assms obtain r fig1 fig2 where
    "render_subplots bk (snd r) pc (subplots_ajdust cfg) = Inr fig1"
    and "figure_legend cfg fig1 = Inr fig2" and "fig = save_figure cfg fig2"
    by (auto simp: plot_line2D_def split: sum.splits dest!: call_subplots_ajdust_cases(1))
  moreover have "f_saved (subplots_ajdust cfg) = []"
    by (simp add: subplots_ajdust_def Let_def)
  ultimately have "f_saved fig2 = []" and "fig = save_figure cfg fig2"
    using render_subplots_saved figure_legend_saved by metis+
  then show ?thesis by (simp add: save_figure_saved)
qed

theorem output_writer_paths_witness:
  "\<not> isl (plot_line2D ex_backend ex_storage
            (empty_fig_cfg\<lparr>fc_file_path := Some ''out/'', fc_fig_format := Some ''pdf''\<rparr>)
            [(1, empty_plot_data\<lparr>pd_line := Some [1]\<rparr>)]
            [(1, empty_line_data\<lparr>ld_xdata := Some (''f.csv'', ''x''),
                                  ld_ydata := Some (''f.csv'', ''y'')\<rparr>)])
   \<and> f_saved (final_figure (plot_line2D ex_backend ex_storage
            (empty_fig_cfg\<lparr>fc_file_path := Some ''out/'', fc_fig_format := Some ''pdf''\<rparr>)
            [(1, empty_plot_data\<lparr>pd_line := Some [1]\<rparr>)]
            [(1, empty_line_data\<lparr>ld_xdata := Some (''f.csv'', ''x''),
                                  ld_ydata := Some (''f.csv'', ''y'')\<rparr>)]))
       = [''out/new_fig.pdf'', ''out/new_fig.png'']
   \<and> f_saved (final_figure (plot_line2D ex_backend ex_storage empty_fig_cfg [] []))
       = [''./new_fig.png'']"
proof -
  let ?R = "plot_line2D ex_backend ex_storage
            (empty_fig_cfg\<lparr>fc_file_path := Some ''out/'', fc_fig_format := Some ''pdf''\<rparr>)
            [(1, empty_plot_data\<lparr>pd_line := Some [1]\<rparr>)]
            [(1, empty_line_data\<lparr>ld_xdata := Some (''f.csv'', ''x''),
                                  ld_ydata := Some (''f.csv'', ''y'')\<rparr>)]"
  let ?Q = "plot_line2D ex_backend ex_storage empty_fig_cfg [] []"
  have ok: "\<not> isl ?R" by (simp add: eval_defs)
  then obtain fig rd where R: "?R = Inr (fig, rd)" by (cases ?R) auto
  have "\<not> isl ?Q" by (simp add: eval_defs)
  then obtain fig' rd' where Q: "?Q = Inr (fig', rd')" by (cases ?Q) auto
  from output_writer_paths [OF R] have "f_saved fig = [''out/new_fig.pdf'', ''out/new_fig.png'']"
    by (simp add: dict_get_def empty_fig_cfg_def)
  moreover from output_writer_paths [OF Q] have "f_saved fig' = [''./new_fig.png'']"
    by (simp add: dict_get_def empty_fig_cfg_def)
  ultimately show ?thesis using R Q ok by (simp add: final_figure_def)
qed

text \<open>
  Claim C8. A key that is absent from the figure configuration takes its default:
  rows 1, columns 1, width 6, height 9 (not the 6 of the docstring), font size 10,
  left 0.125, right 0.9, bottom 0.05, top 0.9, wspace 0.2 and hspace 0.2.
\<close>

theorem subplots_ajdust_defaults:
  "(fc_num_rows cfg = None \<longrightarrow> f_nrows (subplots_ajdust cfg) = 1)
 \<and> (fc_num_cols cfg = None \<longrightarrow> f_ncols (subplots_ajdust cfg) = 1)
 \<and> (fc_width cfg = None \<longrightarrow> fst (f_figsize (subplots_ajdust cfg)) = 6)
 \<and> (fc_height cfg = None \<longrightarrow> snd (f_figsize (subplots_ajdust cfg)) = 9
                              \<and> snd (f_figsize (subplots_ajdust cfg)) \<noteq> 6)
 \<and> (fc_fontsize cfg = None \<longrightarrow> f_font_size (subplots_ajdust cfg) = 10)
 \<and> (fc_left cfg = None \<longrightarrow> m_left (f_adjust (subplots_ajdust cfg)) = 0.125)
 \<and> (fc_right cfg = None \<longrightarrow> m_right (f_adjust (subplots_ajdust cfg)) = 0.9)
 \<and> (fc_bottom cfg = None \<longrightarrow> m_bottom (f_adjust (subplots_ajdust cfg)) = 0.05)
 \<and> (fc_top cfg = None \<longrightarrow> m_top (f_adjust (subplots_ajdust cfg)) = 0.9)
 \<and> (fc_wspace cfg = None \<longrightarrow> m_wspace (f_adjust (subplots_ajdust cfg)) = 0.2)
 \<and> (fc_hspace cfg = None \<longrightarrow> m_hspace (f_adjust (subplots_ajdust cfg)) = 0.2)"
  by (simp add: subplots_ajdust_def dict_get_def Let_def)

theorem subplots_ajdust_defaults_witness:
  "f_nrows (subplots_ajdust empty_fig_cfg) = 1
 \<and> f_ncols (subplots_ajdust empty_fig_cfg) = 1
 \<and> f_figsize (subplots_ajdust empty_fig_cfg) = (6, 9)
 \<and> f_font_size (subplots_ajdust empty_fig_cfg) = 10
 \<and> f_adjust (subplots_ajdust empty_fig_cfg)
      = \<lparr>m_left = 0.125, m_bottom = 0.05, m_right = 0.9, m_top = 0.9,
         m_wspace = 0.2, m_hspace = 0.2\<rparr>
 \<and> length (f_axes (subplots_ajdust empty_fig_cfg)) = 1"
proof -
  have keys: "fc_num_rows empty_fig_cfg = None" "fc_num_cols empty_fig_cfg = None"
    "fc_width empty_fig_cfg = None" "fc_height empty_fig_cfg = None"
    "fc_fontsize empty_fig_cfg = None" "fc_left empty_fig_cfg = None"
    "fc_right empty_fig_cfg = None" "fc_bottom empty_fig_cfg = None"
    "fc_top empty_fig_cfg = None" "fc_wspace empty_fig_cfg = None"
    "fc_hspace empty_fig_cfg = None"
    by (simp_all add: empty_fig_cfg_def)
  have len: "length (f_axes (subplots_ajdust empty_fig_cfg)) = 1"
    by (simp add: subplots_ajdust_def empty_fig_cfg_def dict_get_def)
  from subplots_ajdust_defaults [of empty_fig_cfg] keys len show ?thesis
    by (simp add: prod_eq_iff margins.equality)
qed

text \<open>
  Claim C9, amended. Drawing the line list of a subplot adds one new axes to the figure
  for every entry of the list whose \<open>rightYAxis\<close> label is set and not empty, in the order of
  the list: a twin of the primary axes that carries the label and holds that line alone.
  Axes are never reused, so a list with \<open>n\<close> such entries adds \<open>n\<close> axes. (As the claim is
  written it fails for a label that is set to the empty string: Python takes it for
  false and the line is drawn on the primary axes, see the counterexample.)
\<close>

theorem each_right_axis_line_gets_own_twin:
  assumes "draw_lines bk lc ax ids (fig, hs) = Inr (fig', hs')"
    and "ax < length (f_axes fig)"
  shows "length (f_axes fig') = length (f_axes fig) + length (filter (on_right_axis lc) ids)
       \<and> list_all2 (twin_of_line lc ax)
           (drop (length (f_axes fig)) (f_axes fig')) (filter (on_right_axis lc) ids)"
proof -
  have tw: "list_all2 (twin_of_line lc ax)
           (drop (length (f_axes fig)) (f_axes fig')) (filter (on_right_axis lc) ids)"
    using draw_lines_twins [OF assms(1)] assms(2) by simp
  then have "length (drop (length (f_axes fig)) (f_axes fig'))
      = length (filter (on_right_axis lc) ids)"
    by (rule list_all2_lengthD)
  moreover have "length (f_axes fig) \<le> length (f_axes fig')"
    using draw_lines_others [OF assms(1)] by simp
  ultimately have "length (f_axes fig') = length (f_axes fig) + length (filter (on_right_axis lc) ids)"
    by simp
  with tw show ?thesis by simp
qed

theorem each_right_axis_line_gets_own_twin_witness:
  "\<not> isl (draw_lines ex_backend
            [(1, empty_line_data\<lparr>ld_xdata_array := Some [0, 1], ld_ydata_array := Some [2, 3],
                                  ld_rightYAxis := Some ''%''\<rparr>),
             (2, empty_line_data\<lparr>ld_xdata_array := Some [0, 1], ld_ydata_array := Some [5, 8]\<rparr>),
             (3, empty_line_data\<lparr>ld_xdata_array := Some [0, 1], ld_ydata_array := Some [7, 7],
                                  ld_rightYAxis := Some ''mV''\<rparr>)]
            0 [1, 2, 3] (subplots_ajdust empty_fig_cfg, Map.empty))
   \<and> length (f_axes (fst (projr (draw_lines ex_backend
            [(1, empty_line_data\<lparr>ld_xdata_array := Some [0, 1], ld_ydata_array := Some [2, 3],
                                  ld_rightYAxis := Some ''%''\<rparr>),
             (2, empty_line_data\<lparr>ld_xdata_array := Some [0, 1], ld_ydata_array := Some [5, 8]\<rparr>),
             (3, empty_line_data\<lparr>ld_xdata_array := Some [0, 1], ld_ydata_array := Some [7, 7],
                                  ld_rightYAxis := Some ''mV''\<rparr>)]
            0 [1, 2, 3] (subplots_ajdust empty_fig_cfg, Map.empty))))) = 3"
proof -
  let ?lc = "[(1, empty_line_data\<lparr>ld_xdata_array := Some [0, 1], ld_ydata_array := Some [2, 3],
                                  ld_rightYAxis := Some ''%''\<rparr>),
             (2, empty_line_data\<lparr>ld_xdata_array := Some [0, 1], ld_ydata_array := Some [5, 8]\<rparr>),
             (3, empty_line_data\<lparr>ld_xdata_array := Some [0, 1], ld_ydata_array := Some [7, 7],
                                  ld_rightYAxis := Some ''mV''\<rparr>)]"
  let ?R = "draw_lines ex_backend ?lc 0 [1, 2, 3] (subplots_ajdust empty_fig_cfg, Map.empty)"
  have ok: "\<not> isl ?R" by (simp add: eval_defs)
  then obtain fig' hs' where R: "?R = Inr (fig', hs')" by (cases ?R) auto
  have ax: "0 < length (f_axes (subplots_ajdust empty_fig_cfg))"
    by (simp add: eval_defs)
  have "filter (on_right_axis ?lc) [1, 2, 3] = [1, 3]"
    by (simp add: on_right_axis_def truthy_def empty_line_data_def)
  with each_right_axis_line_gets_own_twin [OF R ax]
  have "length (f_axes fig') = 3" by (simp add: eval_defs)
  with R ok show ?thesis by simp
qed

theorem empty_right_label_counterexample:
  "ld_rightYAxis (empty_line_data\<lparr>ld_xdata_array := Some [0, 1], ld_ydata_array := Some [2, 3],
                                  ld_rightYAxis := Some []\<rparr>) \<noteq> None
   \<and> \<not> isl (plot_line2D ex_backend ex_storage empty_fig_cfg
            [(1, empty_plot_data\<lparr>pd_line := Some [1]\<rparr>)]
            [(1, empty_line_data\<lparr>ld_xdata_array := Some [0, 1], ld_ydata_array := Some [2, 3],
                                  ld_rightYAxis := Some []\<rparr>)])
   \<and> length (f_axes (final_figure (plot_line2D ex_backend ex_storage empty_fig_cfg
            [(1, empty_plot_data\<lparr>pd_line := Some [1]\<rparr>)]
            [(1, empty_line_data\<lparr>ld_xdata_array := Some [0, 1], ld_ydata_array := Some [2, 3],
                                  ld_rightYAxis := Some []\<rparr>)]))) = 1
   \<and> length (a_children (f_axes (final_figure (plot_line2D ex_backend ex_storage empty_fig_cfg
            [(1, empty_plot_data\<lparr>pd_line := Some [1]\<rparr>)]
            [(1, empty_line_data\<lparr>ld_xdata_array := Some [0, 1], ld_ydata_array := Some [2, 3],
                                  ld_rightYAxis := Some []\<rparr>)])) ! 0)) = 1"
  by (simp add: eval_defs)

section \<open>Further properties of plot_line2D\<close>

text \<open>
  What the resolver does in place of claim C1: a call that completes has read, in order,
  the file of every x and y reference of every line entry, one read per reference.
\<close>

theorem every_reference_is_read:
  assumes "plot_line2D bk sto cfg pc lc = Inr (fig, rd)"
  shows "rd = concat (map (\<lambda>p. referenced_files (snd p)) lc)"
proof -
  from assms obtain r where r: "resolve_lines sto init_resolver lc = Inr r"
    and rd: "rd = reads (fst r)"
    by (auto simp: plot_line2D_def split: sum.splits dest!: call_subplots_ajdust_cases(1))
  have "fst ` set (data_file_names init_resolver) \<subseteq> range KInt"
    by (simp add: init_resolver_def)
  with r have "reads (fst r) = reads init_resolver @ concat (map (\<lambda>p. referenced_files (snd p)) lc)"
    by (rule resolve_lines_reads)
  with rd show ?thesis by (simp add: init_resolver_def)
qed

theorem every_reference_is_read_witness:
  "\<not> isl (plot_line2D ex_backend ex_storage empty_fig_cfg
            [(1, empty_plot_data\<lparr>pd_line := Some [1, 2]\<rparr>)]
            [(1, empty_line_data\<lparr>ld_xdata := Some (''f.csv'', ''x''),
                                  ld_ydata := Some (''f.csv'', ''y'')\<rparr>),
             (2, empty_line_data\<lparr>ld_xdata_array := Some [0, 1, 2],
                                  ld_ydata := Some (''f.csv'', ''y'')\<rparr>)])
   \<and> storage_reads (plot_line2D ex_backend ex_storage empty_fig_cfg
            [(1, empty_plot_data\<lparr>pd_line := Some [1, 2]\<rparr>)]
            [(1, empty_line_data\<lparr>ld_xdata := Some (''f.csv'', ''x''),
                                  ld_ydata := Some (''f.csv'', ''y'')\<rparr>),
             (2, empty_line_data\<lparr>ld_xdata_array := Some [0, 1, 2],
                                  ld_ydata := Some (''f.csv'', ''y'')\<rparr>)])
       = [''f.csv'', ''f.csv'', ''f.csv'']"
proof -
  let ?R = "plot_line2D ex_backend ex_storage empty_fig_cfg
            [(1, empty_plot_data\<lparr>pd_line := Some [1, 2]\<rparr>)]
            [(1, empty_line_data\<lparr>ld_xdata := Some (''f.csv'', ''x''),
                                  ld_ydata := Some (''f.csv'', ''y'')\<rparr>),
             (2, empty_line_data\<lparr>ld_xdata_array := Some [0, 1, 2],
                                  ld_ydata := Some (''f.csv'', ''y'')\<rparr>)]"
  have ok: "\<not> isl ?R" by (simp add: eval_defs)
  then obtain fig rd where R: "?R = Inr (fig, rd)" by (cases ?R) auto
  from every_reference_is_read [OF R] have "rd = [''f.csv'', ''f.csv'', ''f.csv'']"
    by (simp add: referenced_files_def empty_line_data_def)
  with R ok show ?thesis by (simp add: storage_reads_def)
qed

text \<open>
  What holds of claim C2: without \<open>bbox_to_anchor\<close>, the legend of the subplot holds exactly
  the handles of the listed identifiers, in the order of the list.
\<close>

lemma subplot_legend_listed:
  assumes "pd_legend pd = Some ids" and "pd_bbox_to_anchor pd = None"
    and "ax < length (f_axes fig)"
    and "subplot_legend pd ax hs fig = Inr fig'"
  shows "\<exists>lg. a_legend (f_axes fig' ! ax) = Some lg
           \<and> map Some (lg_handles lg) = map (\<lambda>i. map_option Line (hs i)) ids"
proof -
  from assms(1,2,4) obtain hl where hl: "lookup_all hs ids = Some hl"
    and fig': "fig' = upd_axes ax (\<lambda>a. a\<lparr>a_legend := Some
                             \<lparr>lg_handles = map Line hl,
                              lg_loc = Some (dict_get (pd_legends_position pd) ''best''),
                              lg_ncol = Some (dict_get (pd_lgdncol pd) 1),
                              lg_bbox_to_anchor = None\<rparr>\<rparr>) fig"
    by (auto simp: subplot_legend_def Let_def split: option.splits)
  have "map Some (map Line hl) = map (map_option Line) (map Some hl)"
    by simp
  also have "\<dots> = map (\<lambda>i. map_option Line (hs i)) ids"
    using lookup_all_map [OF hl] by simp
  finally show ?thesis
    using assms(3) by (simp add: fig' upd_axes_nth)
qed

theorem subplot_legend_listed_witness:
  "\<not> isl (subplot_legend (empty_plot_data\<lparr>pd_legend := Some [2]\<rparr>) 0
            [2 \<mapsto> \<lparr>l_uid = 1, l_xdata = [0, 1], l_ydata = [5, 8], l_color = ''b'',
                    l_linestyle = ''-'', l_marker = None, l_markevery = 1,
                    l_label = Some ''B'', l_kwargs = []\<rparr>]
            (subplots_ajdust empty_fig_cfg))
   \<and> legend_labels (f_axes (projr (subplot_legend (empty_plot_data\<lparr>pd_legend := Some [2]\<rparr>) 0
            [2 \<mapsto> \<lparr>l_uid = 1, l_xdata = [0, 1], l_ydata = [5, 8], l_color = ''b'',
                    l_linestyle = ''-'', l_marker = None, l_markevery = 1,
                    l_label = Some ''B'', l_kwargs = []\<rparr>]
            (subplots_ajdust empty_fig_cfg))) ! 0)
       = [Some ''B'']"
proof -
  let ?pd = "empty_plot_data\<lparr>pd_legend := Some [2]\<rparr>"
  let ?h = "\<lparr>l_uid = 1, l_xdata = [0, 1], l_ydata = [5, 8], l_color = ''b'',
                    l_linestyle = ''-'', l_marker = None, l_markevery = 1,
                    l_label = Some ''B'', l_kwargs = []\<rparr>"
  let ?R = "subplot_legend ?pd 0 [2 \<mapsto> ?h] (subplots_ajdust empty_fig_cfg)"
  have ok: "\<not> isl ?R" by (simp add: eval_defs)
  then obtain fig' where R: "?R = Inr fig'" by (cases ?R) auto
  have keys: "pd_legend ?pd = Some [2]" "pd_bbox_to_anchor ?pd = None"
    by (simp_all add: empty_plot_data_def)
  have ax: "0 < length (f_axes (subplots_ajdust empty_fig_cfg))"
    by (simp add: eval_defs)
  from subplot_legend_listed [OF keys ax R] obtain lg where
    lg: "a_legend (f_axes fig' ! 0) = Some lg"
    and hs: "map Some (lg_handles lg) = map (\<lambda>i. map_option Line ([2 \<mapsto> ?h] i)) [2::int]"
    by blast
  from hs have "lg_handles lg = [Line ?h]" by (cases "lg_handles lg") auto
  with lg have "legend_labels (f_axes fig' ! 0) = [Some ''B'']"
    by (simp add: legend_labels_def)
  with R ok show ?thesis by simp
qed

text \<open>
  An error of the builder ends the call before the resolver looks at any line entry:
  whatever the line configuration holds, the error raised is the builder's.
\<close>

theorem builder_error_comes_first:
  assumes "builder_error cfg = Some e"
  shows "plot_line2D bk sto cfg pc lc = Inl (e, subplots_ajdust cfg)"
  using assms by (simp add: plot_line2D_def call_subplots_ajdust_def)

theorem builder_error_comes_first_witness:
  "builder_error (empty_fig_cfg\<lparr>fc_num_rows := Some 0\<rparr>)
     = Some (ValueError ''Number of rows must be a positive integer'')
   \<and> missing_source empty_line_data
   \<and> plot_line2D ex_backend ex_storage (empty_fig_cfg\<lparr>fc_num_rows := Some 0\<rparr>)
         [(1, empty_plot_data\<lparr>pd_line := Some [1]\<rparr>)] [(1, empty_line_data)]
       = Inl (ValueError ''Number of rows must be a positive integer'',
              subplots_ajdust (empty_fig_cfg\<lparr>fc_num_rows := Some 0\<rparr>))
   \<and> builder_error (empty_fig_cfg\<lparr>fc_left := Some 0.9, fc_right := Some 0.1\<rparr>)
     = Some (ValueError ''left cannot be >= right'')"
proof -
  have one: "builder_error (empty_fig_cfg\<lparr>fc_num_rows := Some 0\<rparr>)
     = Some (ValueError ''Number of rows must be a positive integer'')"
    by (simp add: builder_error_def subplots_ajdust_def empty_fig_cfg_def dict_get_def Let_def)
  have two: "builder_error (empty_fig_cfg\<lparr>fc_left := Some 0.9, fc_right := Some 0.1\<rparr>)
     = Some (ValueError ''left cannot be >= right'')"
    by (simp add: builder_error_def subplots_ajdust_def empty_fig_cfg_def dict_get_def Let_def)
  have three: "missing_source empty_line_data"
    by (simp add: missing_source_def empty_line_data_def)
  from builder_error_comes_first [OF one] one two three show ?thesis by simp
qed

end
